theory Spec2Isabelle
  imports Main
begin

chapter \<open>Shipment document intake: extraction client, field validation, upload/review state\<close>

text \<open>
  A shallow embedding of three parts of the application:
  \<^item> \<^verbatim>\<open>lib/api.ts\<close>: \<^verbatim>\<open>cleanNumericValue\<close> and \<^verbatim>\<open>processDocument\<close>;
  \<^item> \<^verbatim>\<open>lib/types.ts\<close>: the \<^verbatim>\<open>containerNumber\<close> and \<^verbatim>\<open>dateOfExport\<close> rules of
    \<^verbatim>\<open>OceanShipmentDataSchema\<close>;
  \<^item> \<^verbatim>\<open>contexts/document-context.tsx\<close>: \<^verbatim>\<open>uploadDocuments\<close>, \<^verbatim>\<open>updateDocumentData\<close>,
    \<^verbatim>\<open>updateBatchStatus\<close> and \<^verbatim>\<open>loadShipmentRequest\<close>.

  Asynchronous calls are run in program order. What an external service answers (the
  identity provider, the record store, the extraction endpoint) is an argument of the model;
  what the code sends to it is returned as a list of effects, in the order of the calls.
\<close>

section \<open>JavaScript values\<close>

text \<open>
  A field value at the declared type \<^verbatim>\<open>string | undefined | null\<close>. A string is a list of
  code units; \<^typ>\<open>char\<close> covers the code units below 256.
\<close>

datatype jsval = Undefined | Null | Str string

text \<open>A \<^verbatim>\<open>!value\<close> test is true for \<^verbatim>\<open>undefined\<close>, \<^verbatim>\<open>null\<close> and the empty string.\<close>

definition truthy :: "jsval \<Rightarrow> bool" where
  "truthy v = (case v of Undefined \<Rightarrow> False | Null \<Rightarrow> False | Str s \<Rightarrow> s \<noteq> [])"

text \<open>
  A thrown value (or the reason of a rejected promise): an \<^verbatim>\<open>Error\<close> instance with its
  message, or anything else.
\<close>

datatype thrown = ErrorObj string | NonError

text \<open>\<^verbatim>\<open>err instanceof Error ? err.message : dflt\<close>\<close>

definition message_or :: "thrown \<Rightarrow> string \<Rightarrow> string" where
  "message_or e dflt = (case e of ErrorObj m \<Rightarrow> m | NonError \<Rightarrow> dflt)"

text \<open>
  The code units below 256 that \<^verbatim>\<open>\s\<close> and \<^verbatim>\<open>String.prototype.trim\<close> treat as white space:
  TAB, LF, VT, FF, CR, SP and NBSP.
\<close>

definition is_space :: "char \<Rightarrow> bool" where
  "is_space c = (c = CHR 0x09 \<or> c = CHR 0x0A \<or> c = CHR 0x0B \<or> c = CHR 0x0C \<or> c = CHR 0x0D
     \<or> c = CHR 0x20 \<or> c = CHR 0xA0)"

definition trim :: "string \<Rightarrow> string" where
  "trim s = rev (dropWhile is_space (rev (dropWhile is_space s)))"

text \<open>
  Case folding of a regular expression with the \<^verbatim>\<open>i\<close> flag (and no \<^verbatim>\<open>u\<close> flag): a code unit
  is compared through its upper case, and a code unit from 128 on never folds to one below
  128, so only the ASCII letters matter for the ASCII patterns used here.
\<close>

definition canonicalize :: "char \<Rightarrow> char" where
  "canonicalize c =
     (case map_of (zip ''abcdefghijklmnopqrstuvwxyz'' ''ABCDEFGHIJKLMNOPQRSTUVWXYZ'') c of
        Some u \<Rightarrow> u
      | None \<Rightarrow> c)"

definition is_digit :: "char \<Rightarrow> bool" where
  "is_digit c = (c \<in> set ''0123456789'')"

text \<open>The character class \<^verbatim>\<open>[A-Z]\<close> under the \<^verbatim>\<open>i\<close> flag.\<close>

definition is_letter_ci :: "char \<Rightarrow> bool" where
  "is_letter_ci c = (canonicalize c \<in> set ''ABCDEFGHIJKLMNOPQRSTUVWXYZ'')"

text \<open>A number in a template string: its decimal digits.\<close>

fun show_nat :: "nat \<Rightarrow> string" where
  "show_nat n =
     (if n < 10 then [''0123456789'' ! n]
      else show_nat (n div 10) @ [''0123456789'' ! (n mod 10)])"

section \<open>The extraction client (\<^verbatim>\<open>lib/api.ts\<close>)\<close>

subsection \<open>\<^verbatim>\<open>cleanNumericValue\<close>\<close>

text \<open>The alternatives of the group in \<^verbatim>\<open>/\s*(kg|KG|lbs|LBS|g|G)\s*$/i\<close>, in their order.\<close>

definition unit_alternatives :: "string list" where
  "unit_alternatives = [''kg'', ''KG'', ''lbs'', ''LBS'', ''g'', ''G'']"

text \<open>\<^term>\<open>ci_prefix u t\<close>: the literal \<open>u\<close> matches at the start of \<open>t\<close>, ignoring case.\<close>

definition ci_prefix :: "string \<Rightarrow> string \<Rightarrow> bool" where
  "ci_prefix u t =
     (length u \<le> length t \<and> map canonicalize (take (length u) t) = map canonicalize u)"

text \<open>
  The regular expression tried at the start of \<open>s\<close>: white space (greedy; giving some back
  cannot help, since no alternative starts with white space), one alternative, white space,
  and the end of the input.
\<close>

definition unit_regex_here :: "string \<Rightarrow> bool" where
  "unit_regex_here s =
     (let t = dropWhile is_space s
      in list_ex (\<lambda>u. ci_prefix u t \<and> list_all is_space (drop (length u) t)) unit_alternatives)"

text \<open>
  \<^verbatim>\<open>value.replace(/\s*(kg|KG|lbs|LBS|g|G)\s*$/i, "")\<close>: the expression is not global, so the
  leftmost match is replaced; a match runs to the end of the input, so what is left is the
  text before it. Without a match the string is returned as it is.
\<close>

fun replace_unit :: "string \<Rightarrow> string" where
  "replace_unit [] = []"
| "replace_unit (c # cs) = (if unit_regex_here (c # cs) then [] else c # replace_unit cs)"

definition cleanNumericValue :: "jsval \<Rightarrow> string" where
  "cleanNumericValue v =
     (if \<not> truthy v then []
      else case v of Str s \<Rightarrow> trim (replace_unit s) | _ \<Rightarrow> [])"

subsection \<open>\<^verbatim>\<open>processDocument\<close>\<close>

record OceanShipmentData =
  billOfLadingNumber :: jsval
  containerNumber :: jsval
  consigneeName :: jsval
  consigneeAddress :: jsval
  dateOfExport :: jsval
  lineItemsCount :: jsval
  averageGrossWeight :: jsval
  averagePrice :: jsval

text \<open>A browser \<^verbatim>\<open>File\<close>: its name and its MIME type.\<close>

record File =
  name :: string
  mime_type :: string

text \<open>
  A parsed JSON body: \<^verbatim>\<open>null\<close>, or a value whose properties can be read. Reading a key that
  is not there gives \<^verbatim>\<open>undefined\<close>; numbers, strings, booleans and arrays have none of the
  keys read here and behave as the object without keys.
\<close>

datatype json = JNull | JObj "string \<Rightarrow> jsval"

text \<open>
  Reading a property of \<^verbatim>\<open>null\<close> throws a \<^verbatim>\<open>TypeError\<close>; its message is the engine's (the
  wording is V8's).
\<close>

definition null_property_error :: "string \<Rightarrow> thrown" where
  "null_property_error key =
     ErrorObj (''Cannot read properties of null (reading '' @ [CHR 0x27] @ key @ [CHR 0x27] @ '')'')"

definition get_property :: "json \<Rightarrow> string \<Rightarrow> thrown + jsval" where
  "get_property j key = (case j of JNull \<Rightarrow> Inl (null_property_error key) | JObj f \<Rightarrow> Inr (f key))"

text \<open>
  A \<^verbatim>\<open>Response\<close>: \<^verbatim>\<open>ok\<close>, \<^verbatim>\<open>status\<close> and what \<^verbatim>\<open>response.json()\<close> settles to (\<open>Inl\<close>: the body
  is not JSON and the promise rejects).
\<close>

record http_response =
  ok :: bool
  http_status :: nat
  json_body :: "thrown + json"

text \<open>What the code asks of the outside world, in program order.\<close>

datatype effect =
    AuthGetUser
  | InsertShipmentRequest string "string option" string string
  | InsertLog string string string "OceanShipmentData option"
  | PostProcessDocuments "File list"
  | UpdateShipmentRequest string string OceanShipmentData
  | SelectRecentShipment string
  | SelectShipmentRequest string

text \<open>The object \<^verbatim>\<open>{ success, data?, error? }\<close> that \<^verbatim>\<open>processDocument\<close> resolves to.\<close>

record process_result =
  success :: bool
  result_data :: "OceanShipmentData option"
  result_error :: "string option"

definition http_error_message :: "nat \<Rightarrow> string" where
  "http_error_message st = ''HTTP error! status: '' @ show_nat st"

text \<open>The object literal \<^verbatim>\<open>data = { billOfLadingNumber: result.bill_of_lading_number, ... }\<close>.\<close>

definition map_fields :: "(string \<Rightarrow> jsval) \<Rightarrow> OceanShipmentData" where
  "map_fields r =
     \<lparr> billOfLadingNumber = r ''bill_of_lading_number'',
       containerNumber = r ''container_number'',
       consigneeName = r ''consignee_name'',
       consigneeAddress = r ''consignee_address'',
       dateOfExport = r ''date_of_export'',
       lineItemsCount = r ''line_items_count'',
       averageGrossWeight = Str (cleanNumericValue (r ''average_gross_weight'')),
       averagePrice = r ''average_price'' \<rparr>"

text \<open>
  The body of the \<^verbatim>\<open>try\<close> block, after \<^verbatim>\<open>fetch\<close> has settled to \<open>fetched\<close> (\<open>Inl\<close>: it
  rejected). \<open>Inl\<close> is what the block throws, \<open>Inr\<close> the data it builds.
\<close>

definition processDocument_try :: "(thrown + http_response) \<Rightarrow> thrown + OceanShipmentData" where
  "processDocument_try fetched =
     (case fetched of
        Inl e \<Rightarrow> Inl e
      | Inr response \<Rightarrow>
          if \<not> ok response then
            (let errorData = (case json_body response of Inl _ \<Rightarrow> JObj (\<lambda>_. Undefined) | Inr j \<Rightarrow> j)
             in case get_property errorData ''message'' of
                  Inl e \<Rightarrow> Inl e
                | Inr m \<Rightarrow>
                    Inl (ErrorObj (case m of
                                     Str s \<Rightarrow> if truthy m then s else http_error_message (http_status response)
                                   | _ \<Rightarrow> http_error_message (http_status response))))
          else
            (case json_body response of
               Inl e \<Rightarrow> Inl e
             | Inr result \<Rightarrow>
                 (case result of
                    JNull \<Rightarrow> Inl (null_property_error ''bill_of_lading_number'')
                  | JObj r \<Rightarrow> Inr (map_fields r))))"

text \<open>
  \<^verbatim>\<open>processDocument(files)\<close>: one \<^verbatim>\<open>POST\<close> of the files, then the \<^verbatim>\<open>try\<close>/\<^verbatim>\<open>catch\<close>. The first
  component is the list of requests sent.
\<close>

definition success_result :: "OceanShipmentData \<Rightarrow> process_result" where
  "success_result d = \<lparr> success = True, result_data = Some d, result_error = None \<rparr>"

definition failure_result :: "string \<Rightarrow> process_result" where
  "failure_result m = \<lparr> success = False, result_data = None, result_error = Some m \<rparr>"

definition processDocument :: "File list \<Rightarrow> (thrown + http_response) \<Rightarrow> effect list \<times> process_result" where
  "processDocument files fetched =
     ([PostProcessDocuments files],
      case processDocument_try fetched of
        Inr d \<Rightarrow> success_result d
      | Inl e \<Rightarrow> failure_result (message_or e ''Failed to process document''))"

section \<open>Field validation (\<^verbatim>\<open>lib/types.ts\<close>)\<close>

subsection \<open>\<^verbatim>\<open>containerNumber\<close>\<close>

text \<open>
  \<^term>\<open>match_class p n s\<close>: exactly \<open>n\<close> code units of the class \<open>p\<close> at the start of \<open>s\<close>;
  the result is the rest of the input.
\<close>

fun match_class :: "(char \<Rightarrow> bool) \<Rightarrow> nat \<Rightarrow> string \<Rightarrow> string option" where
  "match_class p 0 s = Some s"
| "match_class p (Suc n) [] = None"
| "match_class p (Suc n) (c # cs) = (if p c then match_class p n cs else None)"

text \<open>\<^verbatim>\<open>/^[A-Z]{4}\d{7}$/i\<close>; without the \<^verbatim>\<open>m\<close> flag, \<^verbatim>\<open>$\<close> is the end of the input only.\<close>

definition container_regex :: "string \<Rightarrow> bool" where
  "container_regex s =
     (case match_class is_letter_ci 4 s of
        None \<Rightarrow> False
      | Some r \<Rightarrow> (case match_class is_digit 7 r of None \<Rightarrow> False | Some r' \<Rightarrow> r' = []))"

text \<open>
  \<^verbatim>\<open>z.string().min(11, ...).max(11, ...).regex(...)\<close>: the value is accepted when no check
  raises an issue.
\<close>

definition containerNumber_valid :: "string \<Rightarrow> bool" where
  "containerNumber_valid s = (11 \<le> length s \<and> length s \<le> 11 \<and> container_regex s)"

subsection \<open>\<^verbatim>\<open>dateOfExport\<close>\<close>

text \<open>
  What the rule reads from its surroundings, all in milliseconds: \<^verbatim>\<open>new Date(val).getTime()\<close>
  for a string (\<open>None\<close> is \<^verbatim>\<open>NaN\<close>, an invalid date), the time value of \<^verbatim>\<open>new Date()\<close>, and the
  time zone of the host as the two readings the language uses: the offset of local time from
  UTC in force at a UTC time value (\<open>localTZA_utc\<close>), and the offset with which a local time
  value is read (\<open>localTZA_local\<close>; where a local time is skipped or repeated by a change of
  the clocks, the host reads it with the offset before the change).
\<close>

record DateEnv =
  parse_date :: "string \<Rightarrow> int option"
  now_ms :: int
  localTZA_utc :: "int \<Rightarrow> int"
  localTZA_local :: "int \<Rightarrow> int"

definition msPerDay :: int where
  "msPerDay = 86400000"

text \<open>The abstract operations \<^verbatim>\<open>LocalTime\<close>, \<^verbatim>\<open>UTC\<close> and \<^verbatim>\<open>TimeClip\<close> of the language.\<close>

definition LocalTime :: "DateEnv \<Rightarrow> int \<Rightarrow> int" where
  "LocalTime env t = t + localTZA_utc env t"

definition UTC :: "DateEnv \<Rightarrow> int \<Rightarrow> int" where
  "UTC env t = t - localTZA_local env t"

definition TimeClip :: "int \<Rightarrow> int option" where
  "TimeClip t = (if abs t \<le> 8640000000000000 then Some t else None)"

text \<open>
  \<^verbatim>\<open>today.setHours(23, 59, 59, 999)\<close> on a date with the time value \<open>t\<close>: the day of the local
  time of \<open>t\<close> is kept, the time within the day is set to its last millisecond, and the
  result is taken back to UTC with the offset in force at that local time. \<open>None\<close> is \<^verbatim>\<open>NaN\<close>.
\<close>

definition setHours_end_of_day :: "DateEnv \<Rightarrow> int \<Rightarrow> int option" where
  "setHours_end_of_day env t =
     (let date = (LocalTime env t div msPerDay) * msPerDay
                 + (((23 * 60 + 59) * 60 + 59) * 1000 + 999)
      in TimeClip (UTC env date))"

text \<open>
  \<^verbatim>\<open>z.string().min(1, ...).refine(valid date).refine(date <= today)\<close>. A comparison with
  \<^verbatim>\<open>NaN\<close> is false.
\<close>

definition dateOfExport_valid :: "DateEnv \<Rightarrow> string \<Rightarrow> bool" where
  "dateOfExport_valid env val =
     (1 \<le> length val
      \<and> (case parse_date env val of None \<Rightarrow> False | Some d \<Rightarrow> True)
      \<and> (case parse_date env val of
           None \<Rightarrow> False
         | Some d \<Rightarrow>
             (case setHours_end_of_day env (now_ms env) of
                None \<Rightarrow> False
              | Some today \<Rightarrow> d \<le> today)))"

section \<open>The upload/review state (\<^verbatim>\<open>contexts/document-context.tsx\<close>)\<close>

subsection \<open>Data\<close>

datatype file_kind = Pdf | Excel

record ProcessedDocument =
  doc_id :: string
  fileName :: string
  fileType :: file_kind
  doc_uploadedAt :: int
  data :: OceanShipmentData
  fileUrl :: "string option"

record ProcessBatch =
  batch_id :: string
  title :: string
  description :: "string option"
  status :: "string option"
  files :: "ProcessedDocument list"
  batch_uploadedAt :: int
  fileCount :: nat
  shipmentRequestId :: "string option"

text \<open>The five \<^verbatim>\<open>useState\<close> cells of \<^verbatim>\<open>DocumentProvider\<close>.\<close>

record DocumentState =
  batches :: "ProcessBatch list"
  currentBatch :: "ProcessBatch option"
  currentDocument :: "ProcessedDocument option"
  isProcessing :: bool
  error :: "string option"

text \<open>\<^verbatim>\<open>xs[0] || null\<close>\<close>

definition first_or_null :: "'a list \<Rightarrow> 'a option" where
  "first_or_null xs = (case xs of [] \<Rightarrow> None | x # _ \<Rightarrow> Some x)"

subsection \<open>\<^verbatim>\<open>uploadDocuments\<close>\<close>

text \<open>What \<^verbatim>\<open>supabase.auth.getUser()\<close> resolves to: the id of \<^verbatim>\<open>data.user\<close>, and \<^verbatim>\<open>error\<close>.\<close>

record auth_result =
  auth_user :: "string option"
  auth_error :: "string option"

text \<open>
  What the insert into \<^verbatim>\<open>shipment_requests\<close> resolves to: the id of the new row, and the
  message of \<^verbatim>\<open>error\<close>.
\<close>

record insert_result =
  insert_data :: "string option"
  insert_error :: "string option"

text \<open>
  The answers of the outside world to one run of \<^verbatim>\<open>uploadDocuments\<close>, one field for each
  call in the text of the function (\<open>Inl\<close>: the awaited promise rejects), and the values of
  \<^verbatim>\<open>crypto.randomUUID()\<close>, \<^verbatim>\<open>URL.createObjectURL(file)\<close> and \<^verbatim>\<open>new Date()\<close> by the number of
  the call.
\<close>

record UploadWorld =
  getUser :: "thrown + auth_result"
  insertShipment :: "thrown + insert_result"
  fetch_outcome :: "thrown + http_response"
  updateShipment :: "thrown + string option"
  getUser_in_catch :: "thrown + auth_result"
  recentShipment :: "thrown + string option"
  randomUUID :: "nat \<Rightarrow> string"
  createObjectURL :: "nat \<Rightarrow> string"
  clock :: "nat \<Rightarrow> int"

definition isValidType :: "string \<Rightarrow> bool" where
  "isValidType mime =
     (mime = ''application/pdf''
      \<or> mime = ''application/vnd.openxmlformats-officedocument.spreadsheetml.sheet''
      \<or> mime = ''application/vnd.ms-excel'')"

text \<open>The \<^verbatim>\<open>for\<close> loop of step 3 throws at the first file whose type is not valid.\<close>

definition first_invalid :: "File list \<Rightarrow> File option" where
  "first_invalid fs = find (\<lambda>f. \<not> isValidType (mime_type f)) fs"

definition invalid_type_message :: "File \<Rightarrow> string" where
  "invalid_type_message f =
     ''Invalid file type for '' @ name f @ ''. Please upload PDF or Excel files only.''"

text \<open>\<^verbatim>\<open>x || dflt\<close> on an optional string: the empty string is falsy too.\<close>

definition or_else :: "string option \<Rightarrow> string \<Rightarrow> string" where
  "or_else x dflt = (case x of None \<Rightarrow> dflt | Some m \<Rightarrow> if m = [] then dflt else m)"

text \<open>\<^verbatim>\<open>description || null\<close>\<close>

definition or_null :: "string option \<Rightarrow> string option" where
  "or_null x = (case x of None \<Rightarrow> None | Some m \<Rightarrow> if m = [] then None else Some m)"

text \<open>\<^term>\<open>ci_suffix u t\<close>: \<open>t\<close> ends with the ASCII text \<open>u\<close>, ignoring case.\<close>

definition ci_suffix :: "string \<Rightarrow> string \<Rightarrow> bool" where
  "ci_suffix u t =
     (length u \<le> length t \<and> map canonicalize (drop (length t - length u) t) = map canonicalize u)"

text \<open>
  Step 5, for the file at position \<open>i\<close>. \<^verbatim>\<open>file.name.toLowerCase().endsWith(".pdf")\<close> is the
  test that the name ends with \<^verbatim>\<open>.pdf\<close> in any case.
\<close>

definition processedFile :: "UploadWorld \<Rightarrow> OceanShipmentData \<Rightarrow> nat \<Rightarrow> File \<Rightarrow> ProcessedDocument" where
  "processedFile w d i f =
     \<lparr> doc_id = randomUUID w i,
       fileName = name f,
       fileType = (if ci_suffix ''.pdf'' (name f) then Pdf else Excel),
       doc_uploadedAt = clock w i,
       data = d,
       fileUrl = Some (createObjectURL w i) \<rparr>"

text \<open>
  The \<^verbatim>\<open>try\<close> block. The first component lists the requests sent, the second is what the
  block throws (\<open>Inl\<close>) or the batch and documents it has built when it reaches the three
  state updates at its end (\<open>Inr\<close>).
\<close>

definition upload_try ::
  "UploadWorld \<Rightarrow> File list \<Rightarrow> string \<Rightarrow> string option
     \<Rightarrow> effect list \<times> (thrown + ProcessBatch \<times> ProcessedDocument list)" where
  "upload_try w fs ttl descr =
     (case getUser w of
        Inl e \<Rightarrow> ([AuthGetUser], Inl e)
      | Inr au \<Rightarrow>
          (case (if auth_error au \<noteq> None then None else auth_user au) of
             None \<Rightarrow> ([AuthGetUser], Inl (ErrorObj ''Please sign in to upload documents''))
           | Some uid \<Rightarrow>
               (let eff1 = [AuthGetUser, InsertShipmentRequest ttl (or_null descr) ''pending'' uid]
                in case insertShipment w of
                     Inl e \<Rightarrow> (eff1, Inl e)
                   | Inr ins \<Rightarrow>
                       (case (if insert_error ins \<noteq> None then None else insert_data ins) of
                          None \<Rightarrow>
                            (eff1, Inl (ErrorObj (''Failed to create shipment request: ''
                                                  @ or_else (insert_error ins) ''Unknown error'')))
                        | Some shipmentRequestId' \<Rightarrow>
                            (case first_invalid fs of
                               Some f \<Rightarrow> (eff1, Inl (ErrorObj (invalid_type_message f)))
                             | None \<Rightarrow>
                                 (let eff2 = eff1
                                        @ [InsertLog shipmentRequestId' ''uploaded'' uid None,
                                           InsertLog shipmentRequestId' ''processing started'' ''AI'' None]
                                        @ fst (processDocument fs (fetch_outcome w));
                                      result = snd (processDocument fs (fetch_outcome w))
                                  in case (if success result then result_data result else None) of
                                       None \<Rightarrow>
                                         (eff2, Inl (ErrorObj (or_else (result_error result)
                                                                 ''Failed to process documents'')))
                                     | Some d \<Rightarrow>
                                         (let processedFiles = map (\<lambda>(i, f). processedFile w d i f)
                                                                   (zip [0 ..< length fs] fs);
                                              newBatch =
                                                \<lparr> batch_id = randomUUID w (length fs),
                                                  title = ttl,
                                                  description = descr,
                                                  status = Some ''needs review'',
                                                  files = processedFiles,
                                                  batch_uploadedAt = clock w (length fs),
                                                  fileCount = length fs,
                                                  shipmentRequestId = Some shipmentRequestId' \<rparr>;
                                              eff3 = eff2
                                                @ [InsertLog shipmentRequestId' ''processing done'' ''AI'' (Some d),
                                                   UpdateShipmentRequest shipmentRequestId' ''needs review'' d]
                                          in case updateShipment w of
                                               Inl e \<Rightarrow> (eff3, Inl e)
                                             | Inr updateError \<Rightarrow>
                                                 (eff3,
                                                  Inr (case updateError of
                                                         Some _ \<Rightarrow> newBatch
                                                       | None \<Rightarrow> newBatch\<lparr>status := Some ''needs review''\<rparr>,
                                                       processedFiles)))))))))"

text \<open>
  The requests of the \<^verbatim>\<open>catch\<close> block: it asks for the user again and, with a user, for their
  most recent shipment request, and logs the failure against that one. Whatever goes wrong
  in there is swallowed.
\<close>

definition upload_catch :: "UploadWorld \<Rightarrow> effect list" where
  "upload_catch w =
     (case getUser_in_catch w of
        Inl _ \<Rightarrow> [AuthGetUser]
      | Inr au \<Rightarrow>
          (case auth_user au of
             None \<Rightarrow> [AuthGetUser]
           | Some uid \<Rightarrow>
               (case recentShipment w of
                  Inl _ \<Rightarrow> [AuthGetUser, SelectRecentShipment uid]
                | Inr None \<Rightarrow> [AuthGetUser, SelectRecentShipment uid]
                | Inr (Some recent) \<Rightarrow>
                    [AuthGetUser, SelectRecentShipment uid,
                     InsertLog recent ''processing failed'' ''AI'' None])))"

definition uploadDocuments ::
  "UploadWorld \<Rightarrow> File list \<Rightarrow> string \<Rightarrow> string option \<Rightarrow> DocumentState
     \<Rightarrow> effect list \<times> DocumentState" where
  "uploadDocuments w fs ttl descr s =
     (let s1 = s\<lparr>isProcessing := True, error := None\<rparr>
      in case upload_try w fs ttl descr of
           (eff, Inr (newBatch, processedFiles)) \<Rightarrow>
             (eff,
              s1\<lparr>batches := newBatch # batches s1,
                 currentBatch := Some newBatch,
                 currentDocument := first_or_null processedFiles,
                 isProcessing := False\<rparr>)
         | (eff, Inl err) \<Rightarrow>
             (eff @ upload_catch w,
              s1\<lparr>error := Some (message_or err ''An unexpected error occurred''),
                 isProcessing := False\<rparr>))"

subsection \<open>\<^verbatim>\<open>updateDocumentData\<close> and \<^verbatim>\<open>updateBatchStatus\<close>\<close>

text \<open>\<^verbatim>\<open>Partial<OceanShipmentData>\<close>: \<open>None\<close> for a key that the object does not have.\<close>

record PartialData =
  p_billOfLadingNumber :: "jsval option"
  p_containerNumber :: "jsval option"
  p_consigneeName :: "jsval option"
  p_consigneeAddress :: "jsval option"
  p_dateOfExport :: "jsval option"
  p_lineItemsCount :: "jsval option"
  p_averageGrossWeight :: "jsval option"
  p_averagePrice :: "jsval option"

definition override :: "'a \<Rightarrow> 'a option \<Rightarrow> 'a" where
  "override old new = (case new of None \<Rightarrow> old | Some v \<Rightarrow> v)"

text \<open>The spread \<^verbatim>\<open>{ ...doc.data, ...data }\<close>.\<close>

definition merge_data :: "OceanShipmentData \<Rightarrow> PartialData \<Rightarrow> OceanShipmentData" where
  "merge_data d p =
     \<lparr> billOfLadingNumber = override (billOfLadingNumber d) (p_billOfLadingNumber p),
       containerNumber = override (containerNumber d) (p_containerNumber p),
       consigneeName = override (consigneeName d) (p_consigneeName p),
       consigneeAddress = override (consigneeAddress d) (p_consigneeAddress p),
       dateOfExport = override (dateOfExport d) (p_dateOfExport p),
       lineItemsCount = override (lineItemsCount d) (p_lineItemsCount p),
       averageGrossWeight = override (averageGrossWeight d) (p_averageGrossWeight p),
       averagePrice = override (averagePrice d) (p_averagePrice p) \<rparr>"

text \<open>\<^verbatim>\<open>doc.id === id ? { ...doc, data: { ...doc.data, ...data } } : doc\<close>\<close>

definition update_doc :: "string \<Rightarrow> PartialData \<Rightarrow> ProcessedDocument \<Rightarrow> ProcessedDocument" where
  "update_doc i p doc = (if doc_id doc = i then doc\<lparr>data := merge_data (data doc) p\<rparr> else doc)"

definition update_files :: "string \<Rightarrow> PartialData \<Rightarrow> ProcessBatch \<Rightarrow> ProcessBatch" where
  "update_files i p batch = batch\<lparr>files := map (update_doc i p) (files batch)\<rparr>"

definition updateDocumentData :: "string \<Rightarrow> PartialData \<Rightarrow> DocumentState \<Rightarrow> DocumentState" where
  "updateDocumentData i p s =
     s\<lparr>batches := map (update_files i p) (batches s),
       currentBatch :=
         (if currentBatch s \<noteq> None then map_option (update_files i p) (currentBatch s)
          else currentBatch s),
       currentDocument :=
         (if map_option doc_id (currentDocument s) = Some i
          then map_option (\<lambda>prev. prev\<lparr>data := merge_data (data prev) p\<rparr>) (currentDocument s)
          else currentDocument s)\<rparr>"

definition updateBatchStatus :: "string \<Rightarrow> string \<Rightarrow> DocumentState \<Rightarrow> DocumentState" where
  "updateBatchStatus rid st s =
     s\<lparr>batches :=
         map (\<lambda>batch. if shipmentRequestId batch = Some rid then batch\<lparr>status := Some st\<rparr> else batch)
           (batches s),
       currentBatch :=
         (if (case currentBatch s of None \<Rightarrow> False | Some b \<Rightarrow> shipmentRequestId b = Some rid)
          then map_option (\<lambda>prev. prev\<lparr>status := Some st\<rparr>) (currentBatch s)
          else currentBatch s)\<rparr>"

subsection \<open>\<^verbatim>\<open>loadShipmentRequest\<close>\<close>

text \<open>
  A row of \<^verbatim>\<open>shipment_requests\<close> as the function reads it; \<open>row_created_at\<close> is the time value
  of \<^verbatim>\<open>new Date(shipmentRequest.created_at)\<close>.
\<close>

record shipment_row =
  row_title :: string
  row_description :: "string option"
  row_status :: string
  row_extracted_data :: "OceanShipmentData option"
  row_created_at :: int

record select_result =
  select_data :: "shipment_row option"
  select_error :: "string option"

record LoadWorld =
  selectShipment :: "thrown + select_result"
  load_randomUUID :: string

definition defaultData :: OceanShipmentData where
  "defaultData =
     \<lparr> billOfLadingNumber = Str [],
       containerNumber = Str [],
       consigneeName = Str [],
       consigneeAddress = Str [],
       dateOfExport = Str [],
       lineItemsCount = Str [],
       averageGrossWeight = Str [],
       averagePrice = Str [] \<rparr>"

text \<open>
  The \<^verbatim>\<open>try\<close> block, after the \<^verbatim>\<open>select\<close> has been sent: what it throws, or the state after
  its updates.
\<close>

definition load_try :: "LoadWorld \<Rightarrow> string \<Rightarrow> DocumentState \<Rightarrow> thrown + DocumentState" where
  "load_try w rid s =
     (case selectShipment w of
        Inl e \<Rightarrow> Inl e
      | Inr r \<Rightarrow>
          (case (if select_error r \<noteq> None then None else select_data r) of
             None \<Rightarrow> Inl (ErrorObj ''Failed to load shipment request'')
           | Some shipmentRequest \<Rightarrow>
               (let processedDoc =
                      \<lparr> doc_id = load_randomUUID w,
                        fileName = ''Loaded from database'',
                        fileType = Pdf,
                        doc_uploadedAt = row_created_at shipmentRequest,
                        data = (case row_extracted_data shipmentRequest of
                                  None \<Rightarrow> defaultData
                                | Some extractedData \<Rightarrow> extractedData),
                        fileUrl = None \<rparr>;
                    loadedBatch =
                      \<lparr> batch_id = rid,
                        title = row_title shipmentRequest,
                        description = row_description shipmentRequest,
                        status = Some (row_status shipmentRequest),
                        files = [processedDoc],
                        batch_uploadedAt = row_created_at shipmentRequest,
                        fileCount = 1,
                        shipmentRequestId = Some rid \<rparr>
                in case find (\<lambda>b. shipmentRequestId b = Some rid) (batches s) of
                     Some existing \<Rightarrow>
                       Inr (s\<lparr>currentBatch := Some existing,
                              currentDocument := first_or_null (files existing)\<rparr>)
                   | None \<Rightarrow>
                       Inr (s\<lparr>batches := loadedBatch # batches s,
                              currentBatch := Some loadedBatch,
                              currentDocument := Some processedDoc\<rparr>))))"

definition loadShipmentRequest ::
  "LoadWorld \<Rightarrow> string \<Rightarrow> DocumentState \<Rightarrow> effect list \<times> DocumentState" where
  "loadShipmentRequest w rid s =
     (let s1 = s\<lparr>isProcessing := True, error := None\<rparr>
      in ([SelectShipmentRequest rid],
          case load_try w rid s1 of
            Inr s2 \<Rightarrow> s2\<lparr>isProcessing := False\<rparr>
          | Inl err \<Rightarrow>
              s1\<lparr>error := Some (message_or err ''Failed to load shipment request''),
                 isProcessing := False\<rparr>))"

section \<open>The specification's wording, as definitions\<close>

text \<open>
  The gross-weight rule as the specification words it: strip a trailing unit suffix
  (\<^verbatim>\<open>kg\<close>, \<^verbatim>\<open>lbs\<close> or \<^verbatim>\<open>g\<close> in any case) and the surrounding white space.
\<close>

definition drop_suffix :: "string \<Rightarrow> string \<Rightarrow> string" where
  "drop_suffix u t = take (length t - length u) t"

definition strip_unit_suffix :: "string \<Rightarrow> string" where
  "strip_unit_suffix t =
     (if ci_suffix ''kg'' t then drop_suffix ''kg'' t
      else if ci_suffix ''lbs'' t then drop_suffix ''lbs'' t
      else if ci_suffix ''g'' t then drop_suffix ''g'' t
      else t)"

definition normalize_weight_spec :: "string \<Rightarrow> string" where
  "normalize_weight_spec s = trim (strip_unit_suffix (trim s))"

text \<open>
  The container-number rule as the specification words it: exactly 11 characters, 4
  letters followed by 7 digits. Letters are the ASCII letters, digits the ASCII digits.
\<close>

definition is_ascii_letter :: "char \<Rightarrow> bool" where
  "is_ascii_letter c =
     (c \<in> set ''abcdefghijklmnopqrstuvwxyz'' \<or> c \<in> set ''ABCDEFGHIJKLMNOPQRSTUVWXYZ'')"

definition container_number_spec :: "string \<Rightarrow> bool" where
  "container_number_spec s =
     (length s = 11 \<and> list_all is_ascii_letter (take 4 s) \<and> list_all is_digit (drop 4 s))"

text \<open>
  The failure message as the specification words it: drawn from the \<^verbatim>\<open>message\<close> of the
  response body or, without one, from the HTTP status.
\<close>

definition body_message :: "http_response \<Rightarrow> string option" where
  "body_message response =
     (case json_body response of
        Inr (JObj f) \<Rightarrow> (case f ''message'' of Str m \<Rightarrow> if m = [] then None else Some m | _ \<Rightarrow> None)
      | _ \<Rightarrow> None)"

definition spec_failure_message :: "http_response \<Rightarrow> string" where
  "spec_failure_message response =
     (case body_message response of
        Some m \<Rightarrow> m
      | None \<Rightarrow> http_error_message (http_status response))"

text \<open>
  The date rule as the specification words it: the value parses as a date, and the date is
  not after the moment of evaluation.
\<close>

definition date_not_after_now_spec :: "DateEnv \<Rightarrow> string \<Rightarrow> bool" where
  "date_not_after_now_spec env val =
     (case parse_date env val of None \<Rightarrow> False | Some d \<Rightarrow> d \<le> now_ms env)"

text \<open>Auxiliary notions of the proofs.\<close>

definition rtrim :: "string \<Rightarrow> string" where
  "rtrim s = rev (dropWhile is_space (rev s))"

definition is_unit_ci :: "string \<Rightarrow> bool" where
  "is_unit_ci a =
     (map canonicalize a = ''KG'' \<or> map canonicalize a = ''LBS'' \<or> map canonicalize a = ''G'')"

text \<open>An effect that writes to \<^verbatim>\<open>shipment_requests\<close>.\<close>

definition writes_shipment_requests :: "effect \<Rightarrow> bool" where
  "writes_shipment_requests e =
     (case e of
        InsertShipmentRequest _ _ _ _ \<Rightarrow> True
      | UpdateShipmentRequest _ _ _ \<Rightarrow> True
      | _ \<Rightarrow> False)"

section \<open>Sample inputs\<close>

text \<open>Concrete files, responses and states on which the results below are run.\<close>

definition sample_pdf :: File where
  "sample_pdf = \<lparr>name = ''inv.pdf'', mime_type = ''application/pdf''\<rparr>"

definition sample_docx :: File where
  "sample_docx = \<lparr>name = ''notes.docx'',
     mime_type = ''application/vnd.openxmlformats-officedocument.wordprocessingml.document''\<rparr>"

definition sample_body :: "string \<Rightarrow> jsval" where
  "sample_body = (\<lambda>_. Undefined)(''bill_of_lading_number'' := Str ''ZMLU34110002'',
      ''container_number'' := Str ''MSCU1234567'', ''average_gross_weight'' := Str ''162.37 KG'')"

definition sample_world :: UploadWorld where
  "sample_world =
     \<lparr> getUser = Inr \<lparr>auth_user = Some ''u1'', auth_error = None\<rparr>,
       insertShipment = Inr \<lparr>insert_data = Some ''r1'', insert_error = None\<rparr>,
       fetch_outcome = Inr \<lparr>ok = True, http_status = 200, json_body = Inr (JObj sample_body)\<rparr>,
       updateShipment = Inr None,
       getUser_in_catch = Inr \<lparr>auth_user = Some ''u1'', auth_error = None\<rparr>,
       recentShipment = Inr (Some ''r1''),
       randomUUID = (\<lambda>i. ''uuid-'' @ show_nat i),
       createObjectURL = (\<lambda>i. ''blob:'' @ show_nat i),
       clock = (\<lambda>i. 1000 + int i) \<rparr>"

definition empty_state :: DocumentState where
  "empty_state = \<lparr>batches = [], currentBatch = None, currentDocument = None,
     isProcessing = False, error = None\<rparr>"

definition sample_doc :: ProcessedDocument where
  "sample_doc =
     \<lparr> doc_id = ''d1'', fileName = ''inv.pdf'', fileType = Pdf, doc_uploadedAt = 0,
       data = map_fields sample_body, fileUrl = Some ''blob:0'' \<rparr>"

definition sample_batch :: ProcessBatch where
  "sample_batch =
     \<lparr> batch_id = ''b1'', title = ''Batch A'', description = None, status = Some ''completed'',
       files = [sample_doc], batch_uploadedAt = 0, fileCount = 1, shipmentRequestId = Some ''r1'' \<rparr>"

definition sample_state :: DocumentState where
  "sample_state = \<lparr>batches = [sample_batch], currentBatch = None, currentDocument = None,
     isProcessing = False, error = Some ''an earlier error''\<rparr>"

definition sample_edit :: PartialData where
  "sample_edit =
     \<lparr> p_billOfLadingNumber = None, p_containerNumber = Some (Str ''MSCU7654321''),
       p_consigneeName = None, p_consigneeAddress = None, p_dateOfExport = None,
       p_lineItemsCount = None, p_averageGrossWeight = None, p_averagePrice = None \<rparr>"

definition signed_out_world :: UploadWorld where
  "signed_out_world =
     sample_world\<lparr>getUser := Inr \<lparr>auth_user = None, auth_error = None\<rparr>,
                  getUser_in_catch := Inr \<lparr>auth_user = None, auth_error = None\<rparr>\<rparr>"

definition completed_state :: DocumentState where
  "completed_state = \<lparr>batches = [sample_batch], currentBatch = Some sample_batch,
     currentDocument = Some sample_doc, isProcessing = False, error = None\<rparr>"

definition pending_state :: DocumentState where
  "pending_state = \<lparr>batches = [sample_batch\<lparr>status := Some ''pending''\<rparr>],
     currentBatch = Some (sample_batch\<lparr>status := Some ''pending''\<rparr>),
     currentDocument = Some sample_doc, isProcessing = False, error = None\<rparr>"

text \<open>A zone with one offset at all times.\<close>

definition fixed_zone :: "int \<Rightarrow> int \<Rightarrow> int" where
  "fixed_zone off t = off"

text \<open>
  New York in 2024: four hours behind UTC from 2024-03-10 07:00 UTC to 2024-11-03 06:00 UTC,
  five hours otherwise; a local time is read with four hours from 03:00 on 2024-03-10 up to
  02:00 on 2024-11-03, local time.
\<close>

definition new_york_2024_utc :: "int \<Rightarrow> int" where
  "new_york_2024_utc t =
     (if 1710054000000 \<le> t \<and> t < 1730613600000 then - 14400000 else - 18000000)"

definition new_york_2024_local :: "int \<Rightarrow> int" where
  "new_york_2024_local t =
     (if 1710039600000 \<le> t \<and> t < 1730599200000 then - 14400000 else - 18000000)"

text \<open>An evaluation in New York at the time \<open>now\<close>, of a string \<open>val\<close> that parses to \<open>d\<close>.\<close>

definition new_york_env :: "int \<Rightarrow> string \<Rightarrow> int \<Rightarrow> DateEnv" where
  "new_york_env now val d =
     \<lparr> parse_date = [val \<mapsto> d], now_ms = now,
       localTZA_utc = new_york_2024_utc, localTZA_local = new_york_2024_local \<rparr>"

section \<open>The gross-weight rule\<close>

lemma space_canon: "is_space c \<Longrightarrow> canonicalize c = c"
  unfolding is_space_def by (elim disjE; simp add: canonicalize_def)

lemma canon_unit_chars:
  "canonicalize (CHR ''k'') = CHR ''K''" "canonicalize (CHR ''g'') = CHR ''G''"
  "canonicalize (CHR ''l'') = CHR ''L''" "canonicalize (CHR ''b'') = CHR ''B''"
  "canonicalize (CHR ''s'') = CHR ''S''"
  "canonicalize (CHR ''K'') = CHR ''K''" "canonicalize (CHR ''G'') = CHR ''G''"
  "canonicalize (CHR ''L'') = CHR ''L''" "canonicalize (CHR ''B'') = CHR ''B''"
  "canonicalize (CHR ''S'') = CHR ''S''"
  by (simp_all add: canonicalize_def)

lemma not_space_unit_chars:
  "\<not> is_space (CHR ''K'')" "\<not> is_space (CHR ''G'')" "\<not> is_space (CHR ''L'')"
  "\<not> is_space (CHR ''B'')" "\<not> is_space (CHR ''S'')"
  by (simp_all add: is_space_def)

lemma canon_not_space:
  "canonicalize c \<in> {CHR ''K'', CHR ''G'', CHR ''L'', CHR ''B'', CHR ''S''} \<Longrightarrow> \<not> is_space c"
  using space_canon [of c] not_space_unit_chars by auto

lemma rtrim_Nil [simp]: "rtrim [] = []"
  by (simp add: rtrim_def)

lemma rtrim_Cons: "rtrim (c # x) = (if rtrim x = [] \<and> is_space c then [] else c # rtrim x)"
  unfolding rtrim_def
  by (auto simp: dropWhile_append dropWhile_eq_Nil_conv)

lemma rtrim_ltrim: "rtrim (dropWhile is_space s) = dropWhile is_space (rtrim s)"
  by (induction s) (auto simp: rtrim_Cons)

lemma trim_alt: "trim s = dropWhile is_space (rtrim s)"
  using rtrim_ltrim [of s] by (simp add: trim_def rtrim_def)

lemma trim_rtrim: "trim s = rtrim (dropWhile is_space s)"
  by (simp add: trim_def rtrim_def)

lemma rtrim_append_spaces: "list_all is_space w \<Longrightarrow> rtrim (a @ w) = rtrim a"
  by (auto simp: rtrim_def list_all_iff intro!: dropWhile_append2)

lemma rtrim_last: "a \<noteq> [] \<Longrightarrow> \<not> is_space (last a) \<Longrightarrow> rtrim a = a"
  by (cases a rule: rev_cases) (auto simp: rtrim_def)

lemma rtrim_split: "\<exists>w. t = rtrim t @ w \<and> list_all is_space w"
proof (intro exI conjI)
  show "t = rtrim t @ rev (takeWhile is_space (rev t))"
    unfolding rtrim_def
    by (metis rev_append rev_rev_ident takeWhile_dropWhile_id)
  show "list_all is_space (rev (takeWhile is_space (rev t)))"
    by (simp add: list_all_iff) (meson set_takeWhileD)
qed

lemma is_unit_ci_no_space:
  assumes "is_unit_ci a" "c \<in> set a"
  shows "\<not> is_space c"
proof -
  have "canonicalize c \<in> set (map canonicalize a)"
    using assms(2) by simp
  then have "canonicalize c \<in> {CHR ''K'', CHR ''G'', CHR ''L'', CHR ''B'', CHR ''S''}"
    using assms(1) unfolding is_unit_ci_def by (elim disjE) (simp_all, blast+)
  then show ?thesis by (rule canon_not_space)
qed

lemma is_unit_ci_nonempty: "is_unit_ci a \<Longrightarrow> a \<noteq> []"
  by (auto simp: is_unit_ci_def)

lemma is_unit_ci_last: "is_unit_ci a \<Longrightarrow> a \<noteq> [] \<and> \<not> is_space (last a)"
  using is_unit_ci_no_space [of a "last a"] is_unit_ci_nonempty [of a] by simp

lemma is_unit_ci_hd: "is_unit_ci a \<Longrightarrow> \<not> is_space (hd a)"
  using is_unit_ci_no_space [of a "hd a"] is_unit_ci_nonempty [of a] by simp

lemma regex_here_imp: "unit_regex_here s \<Longrightarrow> is_unit_ci (trim s)"
proof -
  assume m: "unit_regex_here s"
  define t where "t = dropWhile is_space s"
  from m obtain u where u: "u \<in> set unit_alternatives" "ci_prefix u t"
      "list_all is_space (drop (length u) t)"
    unfolding unit_regex_here_def t_def Let_def list_ex_iff by blast
  define a where "a = take (length u) t"
  have ca: "map canonicalize a = map canonicalize u" and t: "t = a @ drop (length u) t"
    using u(2) by (simp_all add: ci_prefix_def a_def)
  have "is_unit_ci a"
    using u(1) ca unfolding unit_alternatives_def is_unit_ci_def
    by (auto simp: canon_unit_chars)
  moreover have "rtrim t = a"
    using is_unit_ci_last [OF \<open>is_unit_ci a\<close>] rtrim_append_spaces [OF u(3), of a] t rtrim_last
    by metis
  ultimately show ?thesis by (simp add: trim_rtrim t_def)
qed

lemma unit_imp_regex_here: "is_unit_ci (trim s) \<Longrightarrow> unit_regex_here s"
proof -
  assume un: "is_unit_ci (trim s)"
  define t where "t = dropWhile is_space s"
  define a where "a = rtrim t"
  obtain w where w: "t = a @ w" "list_all is_space w"
    using rtrim_split [of t] a_def by blast
  have ua: "is_unit_ci a" using un by (simp add: trim_rtrim t_def a_def)
  have "\<exists>u. u \<in> set unit_alternatives \<and> map canonicalize a = map canonicalize u"
    using ua unfolding is_unit_ci_def
  proof (elim disjE)
    assume "map canonicalize a = ''KG''"
    then show ?thesis
      by (intro exI [of _ "''kg''"]) (simp add: unit_alternatives_def canon_unit_chars)
  next
    assume "map canonicalize a = ''LBS''"
    then show ?thesis
      by (intro exI [of _ "''lbs''"]) (simp add: unit_alternatives_def canon_unit_chars)
  next
    assume "map canonicalize a = ''G''"
    then show ?thesis
      by (intro exI [of _ "''g''"]) (simp add: unit_alternatives_def canon_unit_chars)
  qed
  then obtain u where u: "u \<in> set unit_alternatives" "map canonicalize a = map canonicalize u"
    by blast
  have len: "length u = length a" using u(2) by (metis length_map)
  have "ci_prefix u t \<and> list_all is_space (drop (length u) t)"
    using w u(2) len by (simp add: ci_prefix_def)
  then show ?thesis
    using u(1) unfolding unit_regex_here_def Let_def list_ex_iff t_def [symmetric] by blast
qed

lemma unit_regex_here_iff: "unit_regex_here s \<longleftrightarrow> is_unit_ci (trim s)"
  using regex_here_imp unit_imp_regex_here by blast

lemma map_canon_length: "map canonicalize a = map canonicalize b \<Longrightarrow> length a = length b"
  using map_eq_imp_length_eq by blast

lemma ci_suffix_Cons:
  "ci_suffix u (c # y) = (ci_suffix u y \<or> map canonicalize (c # y) = map canonicalize u)"
proof -
  consider (le) "length u \<le> length y" | (eq) "length u = Suc (length y)"
    | (gt) "Suc (length y) < length u"
    by linarith
  then show ?thesis
  proof cases
    case le
    have d: "drop (length (c # y) - length u) (c # y) = drop (length y - length u) y"
      using le by (simp add: Suc_diff_le)
    have ne: "map canonicalize (c # y) \<noteq> map canonicalize u"
      using le map_canon_length [of "c # y" u] by auto
    have "ci_suffix u (c # y) = ci_suffix u y"
      unfolding ci_suffix_def d using le by simp
    then show ?thesis using ne by simp
  next
    case eq
    have "\<not> ci_suffix u y"
      unfolding ci_suffix_def using eq by simp
    moreover have "length (c # y) - length u = 0" "length u \<le> length (c # y)"
      using eq by simp_all
    then have "ci_suffix u (c # y) = (map canonicalize (c # y) = map canonicalize u)"
      unfolding ci_suffix_def by (simp del: length_Cons list.map)
    ultimately show ?thesis by simp
  next
    case gt
    have "\<not> ci_suffix u y" "\<not> ci_suffix u (c # y)"
      unfolding ci_suffix_def using gt by simp_all
    moreover have "map canonicalize (c # y) \<noteq> map canonicalize u"
      using gt map_canon_length [of "c # y" u] by auto
    ultimately show ?thesis by simp
  qed
qed

lemma strip_unit_suffix_Cons:
  assumes "\<not> is_unit_ci (c # y)"
  shows "strip_unit_suffix (c # y) = c # strip_unit_suffix y"
proof -
  have "map canonicalize (c # y) \<noteq> map canonicalize ''kg''"
      "map canonicalize (c # y) \<noteq> map canonicalize ''lbs''"
      "map canonicalize (c # y) \<noteq> map canonicalize ''g''"
    using assms unfolding is_unit_ci_def by (simp_all add: canon_unit_chars)
  then have k: "ci_suffix ''kg'' (c # y) = ci_suffix ''kg'' y"
    and l: "ci_suffix ''lbs'' (c # y) = ci_suffix ''lbs'' y"
    and g: "ci_suffix ''g'' (c # y) = ci_suffix ''g'' y"
    by (simp_all only: ci_suffix_Cons simp_thms)
  have t: "drop_suffix u (c # y) = c # drop_suffix u y" if "ci_suffix u y" for u
    using that by (simp add: ci_suffix_def drop_suffix_def Suc_diff_le)
  show ?thesis
  proof (cases "ci_suffix ''kg'' y")
    case True
    then show ?thesis using t [OF True] by (simp add: strip_unit_suffix_def k)
  next
    case nk: False
    show ?thesis
    proof (cases "ci_suffix ''lbs'' y")
      case True
      then show ?thesis using t [OF True] nk by (simp add: strip_unit_suffix_def k l)
    next
      case nl: False
      show ?thesis
      proof (cases "ci_suffix ''g'' y")
        case True
        then show ?thesis using t [OF True] nk nl by (simp add: strip_unit_suffix_def k l g)
      next
        case False
        then show ?thesis using nk nl by (simp add: strip_unit_suffix_def k l g)
      qed
    qed
  qed
qed


lemma ci_suffix_last:
  assumes "ci_suffix u t" "u \<noteq> []"
  shows "t \<noteq> [] \<and> canonicalize (last t) = canonicalize (last u)"
proof -
  from assms have len: "length u \<le> length t" "0 < length u"
    and m: "map canonicalize (drop (length t - length u) t) = map canonicalize u"
    by (simp_all add: ci_suffix_def)
  have t: "t \<noteq> []" using len by auto
  have "length t - length u < length t" using len by arith
  then have d: "drop (length t - length u) t \<noteq> []" by simp
  have "last (map canonicalize (drop (length t - length u) t)) = last (map canonicalize u)"
    using m by simp
  then have "canonicalize (last (drop (length t - length u) t)) = canonicalize (last u)"
    using d assms(2) by (simp add: last_map)
  then show ?thesis using t d by (simp add: last_drop)
qed


lemma ci_suffix_whole:
  "length u = length a \<Longrightarrow> ci_suffix u (w @ a) = (map canonicalize a = map canonicalize u)"
  by (simp add: ci_suffix_def)

lemma drop_suffix_whole: "length u = length a \<Longrightarrow> drop_suffix u (w @ a) = w"
  by (simp add: drop_suffix_def)

lemma not_ci_suffix_kg_g:
  assumes "list_all is_space w" "canonicalize z = CHR ''G''"
  shows "\<not> ci_suffix ''kg'' (w @ [z])"
proof (cases w rule: rev_cases)
  case Nil
  then show ?thesis by (simp add: ci_suffix_def)
next
  case (snoc ws x)
  have "is_space x" using assms(1) snoc by simp
  then have "canonicalize x \<noteq> CHR ''K''"
    using canon_not_space [of x] by auto
  then show ?thesis using snoc by (simp add: ci_suffix_def canon_unit_chars)
qed

lemma strip_unit_suffix_unit:
  assumes "is_unit_ci a" "list_all is_space w"
  shows "strip_unit_suffix (w @ a) = w"
  using assms(1) unfolding is_unit_ci_def
proof (elim disjE)
  assume a: "map canonicalize a = ''KG''"
  then have "length a = length ''kg''" using map_canon_length [of a "''KG''"] by (simp add: canon_unit_chars)
  then have "ci_suffix ''kg'' (w @ a)" "drop_suffix ''kg'' (w @ a) = w"
    using a by (simp_all only: ci_suffix_whole drop_suffix_whole) (simp add: canon_unit_chars)
  then show ?thesis by (simp add: strip_unit_suffix_def)
next
  assume a: "map canonicalize a = ''LBS''"
  then have len: "length a = length ''lbs''" using map_canon_length [of a "''LBS''"] by (simp add: canon_unit_chars)
  then have "ci_suffix ''lbs'' (w @ a)" "drop_suffix ''lbs'' (w @ a) = w"
    using a by (simp_all only: ci_suffix_whole drop_suffix_whole) (simp add: canon_unit_chars)
  moreover have "canonicalize (last (w @ a)) = CHR ''S''"
    using a len by (metis is_unit_ci_def is_unit_ci_nonempty last_appendR last_map last.simps list.distinct(1))
  then have "\<not> ci_suffix ''kg'' (w @ a)"
    using ci_suffix_last [of "''kg''" "w @ a"] by (auto simp: canon_unit_chars)
  ultimately show ?thesis by (simp add: strip_unit_suffix_def)
next
  assume a: "map canonicalize a = ''G''"
  then obtain z where z: "a = [z]" "canonicalize z = CHR ''G''"
    by auto
  have "\<not> ci_suffix ''kg'' (w @ a)"
    using not_ci_suffix_kg_g [OF assms(2) z(2)] z(1) by simp
  moreover have "\<not> ci_suffix ''lbs'' (w @ a)"
    using ci_suffix_last [of "''lbs''" "w @ a"] z by (auto simp: canon_unit_chars)
  moreover have "ci_suffix ''g'' (w @ a)" "drop_suffix ''g'' (w @ a) = w"
    using z by (simp_all add: ci_suffix_whole drop_suffix_whole canon_unit_chars)
  ultimately show ?thesis by (simp add: strip_unit_suffix_def)
qed


lemma rtrim_spaces: "list_all is_space w \<Longrightarrow> rtrim w = []"
  using rtrim_append_spaces [of w "[]"] by simp

lemma strip_unit_suffix_Nil [simp]: "strip_unit_suffix [] = []"
  by (simp add: strip_unit_suffix_def ci_suffix_def)

lemma strip_unit_suffix_spaces:
  "list_all is_space w \<Longrightarrow> strip_unit_suffix (w @ y) = w @ strip_unit_suffix y"
proof (induction w)
  case Nil
  then show ?case by simp
next
  case (Cons c w)
  then have "is_space c" by simp
  then have "\<not> is_unit_ci (c # w @ y)"
    using is_unit_ci_hd [of "c # w @ y"] by auto
  then show ?case using Cons by (simp add: strip_unit_suffix_Cons)
qed

lemma ltrim_rtrim_spaces:
  "list_all is_space w \<Longrightarrow> dropWhile is_space (rtrim (w @ z)) = dropWhile is_space (rtrim z)"
  by (induction w) (auto simp: rtrim_Cons)

lemma trim_strip_ltrim:
  "trim (strip_unit_suffix x) = trim (strip_unit_suffix (dropWhile is_space x))"
proof -
  define w where "w = takeWhile is_space x"
  define y where "y = dropWhile is_space x"
  have x: "x = w @ y" and w: "list_all is_space w"
    by (simp_all add: w_def y_def list_all_iff) (meson set_takeWhileD)
  show ?thesis
    unfolding y_def [symmetric] unfolding x trim_alt
    by (simp only: strip_unit_suffix_spaces [OF w] ltrim_rtrim_spaces [OF w])
qed

lemma replace_unit_rtrim: "rtrim (replace_unit s) = rtrim (strip_unit_suffix (rtrim s))"
proof (induction s)
  case Nil
  then show ?case by simp
next
  case (Cons c cs)
  define y where "y = rtrim cs"
  show ?case
  proof (cases "unit_regex_here (c # cs)")
    case True
    then have u: "is_unit_ci (trim (c # cs))" by (simp add: unit_regex_here_iff)
    define w where "w = takeWhile is_space (rtrim (c # cs))"
    have w: "list_all is_space w"
      by (simp add: w_def list_all_iff) (meson set_takeWhileD)
    have "rtrim (c # cs) = w @ trim (c # cs)"
      by (simp add: w_def trim_alt)
    then have "strip_unit_suffix (rtrim (c # cs)) = w"
      using strip_unit_suffix_unit [OF u w] by simp
    then show ?thesis using True rtrim_spaces [OF w] by simp
  next
    case False
    then have nu: "\<not> is_unit_ci (trim (c # cs))" by (simp add: unit_regex_here_iff)
    have lhs: "rtrim (replace_unit (c # cs)) =
        (if rtrim (strip_unit_suffix y) = [] \<and> is_space c then []
         else c # rtrim (strip_unit_suffix y))"
      using False Cons.IH by (simp add: rtrim_Cons y_def)
    show ?thesis
    proof (cases "y = [] \<and> is_space c")
      case True
      then show ?thesis using lhs by (simp add: rtrim_Cons y_def [symmetric])
    next
      case ny: False
      then have r: "rtrim (c # cs) = c # y" by (auto simp: rtrim_Cons y_def)
      have "\<not> is_unit_ci (c # y)"
      proof
        assume un: "is_unit_ci (c # y)"
        then have "\<not> is_space c" using is_unit_ci_hd [of "c # y"] by simp
        then have "trim (c # cs) = c # y" using r by (simp add: trim_alt)
        then show False using nu un by simp
      qed
      then have "strip_unit_suffix (c # y) = c # strip_unit_suffix y"
        by (rule strip_unit_suffix_Cons)
      then show ?thesis using lhs r by (simp add: rtrim_Cons)
    qed
  qed
qed

lemma replace_unit_spec: "trim (replace_unit s) = normalize_weight_spec s"
proof -
  have "trim (replace_unit s) = dropWhile is_space (rtrim (strip_unit_suffix (rtrim s)))"
    by (simp add: trim_alt replace_unit_rtrim)
  also have "\<dots> = trim (strip_unit_suffix (rtrim s))"
    by (simp add: trim_alt)
  also have "\<dots> = trim (strip_unit_suffix (trim s))"
    using trim_strip_ltrim [of "rtrim s"] by (simp add: trim_alt)
  finally show ?thesis by (simp add: normalize_weight_spec_def)
qed

lemma cleanNumericValue_Str: "cleanNumericValue (Str s) = normalize_weight_spec s"
proof (cases "s = []")
  case True
  then show ?thesis
    by (simp add: cleanNumericValue_def truthy_def normalize_weight_spec_def trim_def)
next
  case False
  then show ?thesis
    by (simp add: cleanNumericValue_def truthy_def replace_unit_spec)
qed

lemma processDocument_ok_object:
  "snd (processDocument fs (Inr \<lparr>ok = True, http_status = st, json_body = Inr (JObj r)\<rparr>))
     = success_result (map_fields r)"
  by (simp add: processDocument_def processDocument_try_def)

lemma normalize_example: "normalize_weight_spec ''162.37 KG'' = ''162.37''"
  by (simp add: normalize_weight_spec_def strip_unit_suffix_def ci_suffix_def drop_suffix_def
      trim_def is_space_def canonicalize_def)

lemma clean_example: "cleanNumericValue (Str ''162.37 KG'') = ''162.37''"
  by (simp add: cleanNumericValue_def truthy_def trim_def unit_regex_here_def
      unit_alternatives_def ci_prefix_def canonicalize_def is_space_def)

text \<open>
  Claim C6. For every extraction response with HTTP success whose body is an object, the
  gross weight stored in the result is the received string with a trailing unit suffix
  (\<^verbatim>\<open>kg\<close>, \<^verbatim>\<open>lbs\<close> or \<^verbatim>\<open>g\<close>, in any case) and the surrounding white space stripped, as
  \<^const>\<open>normalize_weight_spec\<close> words it; \<^verbatim>\<open>"162.37 KG"\<close> becomes \<^verbatim>\<open>"162.37"\<close>. The regular
  expression replaces one match, so one suffix is stripped. This result is what
  \<^verbatim>\<open>uploadDocuments\<close> stores (\<open>upload_try_stores_extracted\<close> below).
\<close>

theorem gross_weight_normalized:
  "(\<exists>d. snd (processDocument fs (Inr \<lparr>ok = True, http_status = st,
                json_body = Inr (JObj (r(''average_gross_weight'' := Str s)))\<rparr>)) = success_result d
        \<and> averageGrossWeight d = Str (normalize_weight_spec s))
   \<and> normalize_weight_spec ''162.37 KG'' = ''162.37''"
proof -
  let ?r = "r(''average_gross_weight'' := Str s)"
  have "averageGrossWeight (map_fields ?r) = Str (normalize_weight_spec s)"
    by (simp add: map_fields_def cleanNumericValue_Str)
  then show ?thesis
    using processDocument_ok_object [of fs st ?r] normalize_example by blast
qed

text \<open>
  The response \<^verbatim>\<open>{ average_gross_weight: "162.37 KG" }\<close>.
\<close>

theorem gross_weight_normalized_witness:
  "\<exists>d. snd (processDocument [] (Inr \<lparr>ok = True, http_status = 200,
               json_body = Inr (JObj ((\<lambda>_. Undefined)(''average_gross_weight'' := Str ''162.37 KG'')))\<rparr>))
          = success_result d
        \<and> averageGrossWeight d = Str ''162.37''"
  using gross_weight_normalized [of "[]" 200 "\<lambda>_. Undefined" "''162.37 KG''"] by fastforce

lemma cleanNumericValue_falsy:
  "cleanNumericValue Undefined = []" "cleanNumericValue Null = []" "cleanNumericValue (Str []) = []"
  by (simp_all add: cleanNumericValue_def truthy_def)

text \<open>
  Claim C10. When the response omits the key \<^verbatim>\<open>average_gross_weight\<close> or gives it as
  \<^verbatim>\<open>null\<close>, the result is the success variant with \<^verbatim>\<open>averageGrossWeight\<close> the empty string
  (\<^verbatim>\<open>cleanNumericValue\<close> maps \<^verbatim>\<open>undefined\<close>, \<^verbatim>\<open>null\<close> and the empty string to it), and the
  other seven fields are the values of their keys in the response, unchanged: a key that is
  missing stays \<^verbatim>\<open>undefined\<close>.
\<close>

theorem missing_gross_weight_is_empty_string:
  assumes "r ''average_gross_weight'' = Undefined \<or> r ''average_gross_weight'' = Null"
  shows "\<exists>d. snd (processDocument fs (Inr \<lparr>ok = True, http_status = st, json_body = Inr (JObj r)\<rparr>))
              = success_result d
           \<and> averageGrossWeight d = Str []
           \<and> billOfLadingNumber d = r ''bill_of_lading_number''
           \<and> containerNumber d = r ''container_number''
           \<and> consigneeName d = r ''consignee_name''
           \<and> consigneeAddress d = r ''consignee_address''
           \<and> dateOfExport d = r ''date_of_export''
           \<and> lineItemsCount d = r ''line_items_count''
           \<and> averagePrice d = r ''average_price''
           \<and> cleanNumericValue Undefined = [] \<and> cleanNumericValue Null = []
           \<and> cleanNumericValue (Str []) = []"
proof -
  have "cleanNumericValue (r ''average_gross_weight'') = []"
    using assms cleanNumericValue_falsy by auto
  then have "averageGrossWeight (map_fields r) = Str []"
      "billOfLadingNumber (map_fields r) = r ''bill_of_lading_number''"
      "containerNumber (map_fields r) = r ''container_number''"
      "consigneeName (map_fields r) = r ''consignee_name''"
      "consigneeAddress (map_fields r) = r ''consignee_address''"
      "dateOfExport (map_fields r) = r ''date_of_export''"
      "lineItemsCount (map_fields r) = r ''line_items_count''"
      "averagePrice (map_fields r) = r ''average_price''"
    by (simp_all add: map_fields_def)
  then show ?thesis
    using processDocument_ok_object [of fs st r] cleanNumericValue_falsy by blast
qed

text \<open>
  The response \<^verbatim>\<open>{ container_number: "MSCU1234567", average_gross_weight: null }\<close>.
\<close>

theorem missing_gross_weight_witness:
  "\<exists>d. snd (processDocument [] (Inr \<lparr>ok = True, http_status = 200,
               json_body = Inr (JObj ((\<lambda>_. Undefined)(''container_number'' := Str ''MSCU1234567'',
                                                       ''average_gross_weight'' := Null)))\<rparr>))
          = success_result d
        \<and> averageGrossWeight d = Str [] \<and> containerNumber d = Str ''MSCU1234567''
        \<and> billOfLadingNumber d = Undefined"
  using missing_gross_weight_is_empty_string
    [of "(\<lambda>_. Undefined)(''container_number'' := Str ''MSCU1234567'', ''average_gross_weight'' := Null)" "[]" 200]
  by (simp, blast)

lemma processDocument_effects: "fst (processDocument fs fetched) = [PostProcessDocuments fs]"
  by (simp add: processDocument_def)

lemma processDocument_cases:
  "snd (processDocument fs fetched) =
     (case fetched of
        Inl e \<Rightarrow> failure_result (message_or e ''Failed to process document'')
      | Inr response \<Rightarrow>
          if ok response then
            (case json_body response of
               Inl e \<Rightarrow> failure_result (message_or e ''Failed to process document'')
             | Inr JNull \<Rightarrow>
                 failure_result (message_or (null_property_error ''bill_of_lading_number'')
                                   ''Failed to process document'')
             | Inr (JObj r) \<Rightarrow> success_result (map_fields r))
          else
            (case json_body response of
               Inr JNull \<Rightarrow>
                 failure_result (message_or (null_property_error ''message'')
                                   ''Failed to process document'')
             | _ \<Rightarrow> failure_result (spec_failure_message response)))"
  by (auto simp: processDocument_def processDocument_try_def get_property_def message_or_def
      spec_failure_message_def body_message_def truthy_def
      split: sum.splits json.splits jsval.splits)

lemma processDocument_tagged:
  "(\<exists>d. snd (processDocument fs fetched) = success_result d)
     \<noteq> (\<exists>m. snd (processDocument fs fetched) = failure_result m)"
  by (auto simp: processDocument_def success_result_def failure_result_def split: sum.splits)

text \<open>
  Claim C5, as the code has it. \<^verbatim>\<open>processDocument\<close> sends one request and never a second
  one, and it always returns: the model is a total function into the result type, the
  \<^verbatim>\<open>catch\<close> covering the whole body. The result is exactly one of the two variants:
  \<^item> a rejected \<^verbatim>\<open>fetch\<close> (a network error): failure, with the message of what was thrown, or
    \<^verbatim>\<open>"Failed to process document"\<close> when that is not an \<^verbatim>\<open>Error\<close>;
  \<^item> HTTP success with a body that is not JSON: failure, with the message of the parse error;
  \<^item> HTTP success with the body \<^verbatim>\<open>null\<close>: failure, with the message of the \<^verbatim>\<open>TypeError\<close> of
    reading a property of \<^verbatim>\<open>null\<close>;
  \<^item> HTTP success with any other JSON body: success, with the mapped fields;
  \<^item> another HTTP status: failure, with the \<^verbatim>\<open>message\<close> of the body when the body has a
    non-empty one and the text \<^verbatim>\<open>HTTP error! status: N\<close> otherwise (\<^const>\<open>spec_failure_message\<close>),
    except that the body \<^verbatim>\<open>null\<close> again gives the message of the \<^verbatim>\<open>TypeError\<close>.
\<close>

theorem processDocument_result:
  "fst (processDocument fs fetched) = [PostProcessDocuments fs]
   \<and> ((\<exists>d. snd (processDocument fs fetched) = success_result d)
        \<noteq> (\<exists>m. snd (processDocument fs fetched) = failure_result m))
   \<and> snd (processDocument fs fetched) =
       (case fetched of
          Inl e \<Rightarrow> failure_result (message_or e ''Failed to process document'')
        | Inr response \<Rightarrow>
            if ok response then
              (case json_body response of
                 Inl e \<Rightarrow> failure_result (message_or e ''Failed to process document'')
               | Inr JNull \<Rightarrow>
                   failure_result (message_or (null_property_error ''bill_of_lading_number'')
                                     ''Failed to process document'')
               | Inr (JObj r) \<Rightarrow> success_result (map_fields r))
            else
              (case json_body response of
                 Inr JNull \<Rightarrow>
                   failure_result (message_or (null_property_error ''message'')
                                     ''Failed to process document'')
               | _ \<Rightarrow> failure_result (spec_failure_message response)))"
  using processDocument_effects [of fs fetched] processDocument_tagged [of fs fetched]
    processDocument_cases [of fs fetched]
  by (simp only: simp_thms)

text \<open>
  A 503 response with the body \<^verbatim>\<open>{ message: "Service unavailable" }\<close>, and one whose body is
  not JSON.
\<close>

theorem processDocument_result_witness:
  "processDocument [] (Inr \<lparr>ok = False, http_status = 503,
       json_body = Inr (JObj ((\<lambda>_. Undefined)(''message'' := Str ''Service unavailable'')))\<rparr>)
     = ([PostProcessDocuments []], failure_result ''Service unavailable'')
   \<and> processDocument [] (Inr \<lparr>ok = False, http_status = 503, json_body = Inl NonError\<rparr>)
     = ([PostProcessDocuments []], failure_result ''HTTP error! status: 503'')"
  using processDocument_result [of "[]" "Inr \<lparr>ok = False, http_status = 503,
       json_body = Inr (JObj ((\<lambda>_. Undefined)(''message'' := Str ''Service unavailable'')))\<rparr>"]
    processDocument_result [of "[]" "Inr \<lparr>ok = False, http_status = 503, json_body = Inl NonError\<rparr>"]
  by (simp add: prod_eq_iff spec_failure_message_def body_message_def http_error_message_def)

text \<open>
  Claim C5 as stated says that the failure message of a malformed body is drawn from the
  \<^verbatim>\<open>message\<close> of the response body or from the HTTP status. For a 200 response whose body is
  not JSON the message is the one of the parse error, which is neither.
\<close>

theorem malformed_json_message_counterexample:
  "snd (processDocument [\<lparr>name = ''inv.pdf'', mime_type = ''application/pdf''\<rparr>]
         (Inr \<lparr>ok = True, http_status = 200,
               json_body = Inl (ErrorObj ''Unexpected end of JSON input'')\<rparr>))
     = failure_result ''Unexpected end of JSON input''
   \<and> ''Unexpected end of JSON input''
       \<noteq> spec_failure_message \<lparr>ok = True, http_status = 200,
               json_body = Inl (ErrorObj ''Unexpected end of JSON input'')\<rparr>"
  by (simp add: processDocument_def processDocument_try_def message_or_def
      spec_failure_message_def body_message_def http_error_message_def)

section \<open>The container-number and date rules\<close>

lemma lower_canon:
  "c \<in> set ''abcdefghijklmnopqrstuvwxyz'' \<Longrightarrow> canonicalize c \<in> set ''ABCDEFGHIJKLMNOPQRSTUVWXYZ''"
  by (simp only: set_simps insert_iff empty_iff) (elim disjE FalseE; simp add: canonicalize_def)

lemma not_lower_canon: "c \<notin> set ''abcdefghijklmnopqrstuvwxyz'' \<Longrightarrow> canonicalize c = c"
  by (simp add: canonicalize_def)

lemma is_letter_ci_iff: "is_letter_ci c = is_ascii_letter c"
  unfolding is_letter_ci_def is_ascii_letter_def
  using lower_canon [of c] not_lower_canon [of c] by metis

lemma match_class_iff:
  "match_class p n s = Some r \<longleftrightarrow> n \<le> length s \<and> list_all p (take n s) \<and> r = drop n s"
proof (induction p n s rule: match_class.induct)
  case (1 p s)
  then show ?case by auto
next
  case (2 p n)
  then show ?case by simp
next
  case (3 p n c cs)
  then show ?case by auto
qed

lemma container_regex_iff:
  "container_regex s \<longleftrightarrow>
     length s = 11 \<and> list_all is_letter_ci (take 4 s) \<and> list_all is_digit (drop 4 s)"
proof
  assume "container_regex s"
  then obtain r where r: "match_class is_letter_ci 4 s = Some r" "match_class is_digit 7 r = Some []"
    by (auto simp: container_regex_def split: option.splits)
  from r(1) have a: "4 \<le> length s" "list_all is_letter_ci (take 4 s)" "r = drop 4 s"
    by (simp_all add: match_class_iff)
  from r(2) have b: "7 \<le> length r \<and> list_all is_digit (take 7 r) \<and> [] = drop 7 r"
    by (simp only: match_class_iff)
  then have l: "length r = 7" by simp
  then have "take 7 r = r" by simp
  with b have "list_all is_digit r" by metis
  then show "length s = 11 \<and> list_all is_letter_ci (take 4 s) \<and> list_all is_digit (drop 4 s)"
    using a l by simp
next
  assume h: "length s = 11 \<and> list_all is_letter_ci (take 4 s) \<and> list_all is_digit (drop 4 s)"
  then have "match_class is_letter_ci 4 s = Some (drop 4 s)"
    by (simp add: match_class_iff)
  moreover have "match_class is_digit 7 (drop 4 s) = Some []"
    using h by (simp add: match_class_iff)
  ultimately show "container_regex s" by (simp add: container_regex_def)
qed

lemma containerNumber_examples:
  "\<not> containerNumber_valid ''ABC123''" "containerNumber_valid ''MSCU1234567''"
  by (simp_all add: containerNumber_valid_def container_regex_iff is_letter_ci_def
      canonicalize_def is_digit_def)

text \<open>
  Claim C7. The container-number rule accepts a string if and only if it has exactly 11
  characters, 4 letters followed by 7 digits; \<^verbatim>\<open>"ABC123"\<close> is rejected and \<^verbatim>\<open>"MSCU1234567"\<close> is
  accepted.
\<close>

theorem containerNumber_rule:
  "(containerNumber_valid s \<longleftrightarrow> container_number_spec s)
   \<and> \<not> containerNumber_valid ''ABC123'' \<and> containerNumber_valid ''MSCU1234567''"
proof -
  have "list_all is_letter_ci (take 4 s) = list_all is_ascii_letter (take 4 s)"
    by (simp add: list_all_iff is_letter_ci_iff)
  then have "containerNumber_valid s \<longleftrightarrow> container_number_spec s"
    by (auto simp: containerNumber_valid_def container_regex_iff container_number_spec_def)
  then show ?thesis using containerNumber_examples by simp
qed

text \<open>
  Lower-case letters are accepted; 3 letters and 8 digits are not.
\<close>

theorem containerNumber_rule_witness:
  "containerNumber_valid ''mscu7654321'' \<and> container_number_spec ''mscu7654321''
   \<and> \<not> containerNumber_valid ''MSC12345678'' \<and> \<not> container_number_spec ''MSC12345678''"
  using containerNumber_rule [of "''mscu7654321''"] containerNumber_rule [of "''MSC12345678''"]
  by (simp add: container_number_spec_def is_ascii_letter_def is_digit_def)

lemma msPerDay_pos: "0 < msPerDay"
  by (simp add: msPerDay_def)

lemma last_ms_of_day_iff:
  "L div msPerDay = q \<and> L mod msPerDay = msPerDay - 1 \<longleftrightarrow> L = q * msPerDay + 86399999"
proof
  assume h: "L div msPerDay = q \<and> L mod msPerDay = msPerDay - 1"
  have "L div msPerDay * msPerDay + L mod msPerDay = L" by (rule div_mult_mod_eq)
  then have "q * msPerDay + (msPerDay - 1) = L" using h by simp
  then show "L = q * msPerDay + 86399999" by (simp add: msPerDay_def)
next
  assume "L = q * msPerDay + 86399999"
  then show "L div msPerDay = q \<and> L mod msPerDay = msPerDay - 1"
    by (simp add: msPerDay_def)
qed

text \<open>
  Claim C8, as the code has it. The rule compares the date with the last millisecond of the
  local day of evaluation, not with the moment of evaluation: a string is accepted if and
  only if it is not empty, parses as a date, and that date is not after the instant \<open>L\<close> that
  is 23:59:59.999 in local time on the local calendar day of the moment of evaluation, taken
  to UTC with the offset in force at that local time, that instant being a valid time value.
\<close>

theorem dateOfExport_rule:
  "dateOfExport_valid env val \<longleftrightarrow>
     val \<noteq> []
     \<and> (\<exists>d L. parse_date env val = Some d
            \<and> L div msPerDay = LocalTime env (now_ms env) div msPerDay
            \<and> L mod msPerDay = msPerDay - 1
            \<and> abs (UTC env L) \<le> 8640000000000000
            \<and> d \<le> UTC env L)"
proof -
  define L0 where "L0 = (LocalTime env (now_ms env) div msPerDay) * msPerDay + 86399999"
  have u: "(L div msPerDay = LocalTime env (now_ms env) div msPerDay \<and> L mod msPerDay = msPerDay - 1)
      \<longleftrightarrow> L = L0" for L
    unfolding L0_def by (rule last_ms_of_day_iff)
  have s: "setHours_end_of_day env (now_ms env) = TimeClip (UTC env L0)"
    by (simp add: setHours_end_of_day_def L0_def)
  have "dateOfExport_valid env val \<longleftrightarrow>
      val \<noteq> [] \<and> (\<exists>d. parse_date env val = Some d
          \<and> abs (UTC env L0) \<le> 8640000000000000 \<and> d \<le> UTC env L0)"
    by (cases "parse_date env val")
      (auto simp: dateOfExport_valid_def s TimeClip_def Suc_le_eq)
  also have "\<dots> \<longleftrightarrow> val \<noteq> []
     \<and> (\<exists>d L. parse_date env val = Some d
            \<and> L div msPerDay = LocalTime env (now_ms env) div msPerDay
            \<and> L mod msPerDay = msPerDay - 1
            \<and> abs (UTC env L) \<le> 8640000000000000
            \<and> d \<le> UTC env L)"
    using u by (metis (no_types, lifting))
  finally show ?thesis .
qed


text \<open>
  New York on the two days of 2024 on which the clocks change. At 00:30 local time on
  2024-11-03 the bound is 2024-11-04 04:59:59.999 UTC, and 2024-11-04 04:30 UTC is accepted.
  At 01:00 local time on 2024-03-10 the bound is 2024-03-11 03:59:59.999 UTC, and 2024-03-11
  04:30 UTC is rejected.
\<close>

theorem dateOfExport_rule_witness:
  "dateOfExport_valid (new_york_env 1730608200000 ''2024-11-04T04:30:00.000Z'' 1730694600000)
     ''2024-11-04T04:30:00.000Z''
   \<and> \<not> dateOfExport_valid (new_york_env 1710050400000 ''2024-03-11T04:30:00.000Z'' 1710131400000)
     ''2024-03-11T04:30:00.000Z''"
proof
  let ?env = "new_york_env 1730608200000 ''2024-11-04T04:30:00.000Z'' 1730694600000"
  have "parse_date ?env ''2024-11-04T04:30:00.000Z'' = Some 1730694600000
      \<and> 1730678399999 div msPerDay = LocalTime ?env (now_ms ?env) div msPerDay
      \<and> 1730678399999 mod msPerDay = msPerDay - 1
      \<and> abs (UTC ?env 1730678399999) \<le> 8640000000000000
      \<and> 1730694600000 \<le> UTC ?env 1730678399999"
    by (simp add: new_york_env_def LocalTime_def UTC_def new_york_2024_utc_def
        new_york_2024_local_def msPerDay_def)
  then have "\<exists>d L. parse_date ?env ''2024-11-04T04:30:00.000Z'' = Some d
      \<and> L div msPerDay = LocalTime ?env (now_ms ?env) div msPerDay
      \<and> L mod msPerDay = msPerDay - 1
      \<and> abs (UTC ?env L) \<le> 8640000000000000
      \<and> d \<le> UTC ?env L"
    by blast
  then show "dateOfExport_valid ?env ''2024-11-04T04:30:00.000Z''"
    using dateOfExport_rule [of ?env "''2024-11-04T04:30:00.000Z''"] by simp
next
  let ?env = "new_york_env 1710050400000 ''2024-03-11T04:30:00.000Z'' 1710131400000"
  show "\<not> dateOfExport_valid ?env ''2024-03-11T04:30:00.000Z''"
  proof
    assume "dateOfExport_valid ?env ''2024-03-11T04:30:00.000Z''"
    then obtain d L where h: "parse_date ?env ''2024-03-11T04:30:00.000Z'' = Some d"
        "L div msPerDay = LocalTime ?env (now_ms ?env) div msPerDay \<and> L mod msPerDay = msPerDay - 1"
        "d \<le> UTC ?env L"
      using dateOfExport_rule [of ?env "''2024-03-11T04:30:00.000Z''"] by blast
    have d: "d = 1710131400000" using h(1) by (simp add: new_york_env_def)
    have "L = LocalTime ?env (now_ms ?env) div msPerDay * msPerDay + 86399999"
      using h(2) by (simp only: last_ms_of_day_iff)
    then have "L = 1710115199999"
      by (simp add: new_york_env_def LocalTime_def new_york_2024_utc_def msPerDay_def)
    then have "UTC ?env L = 1710129599999"
      by (simp add: new_york_env_def UTC_def new_york_2024_local_def)
    then show False using h(3) d by simp
  qed
qed

text \<open>
  Claim C8 as stated fails: evaluated at midnight UTC, a date one hour later on the same day
  is after the moment of evaluation and is accepted.
\<close>

theorem date_later_today_counterexample:
  "dateOfExport_valid
     \<lparr>parse_date = [''1970-01-01T01:00:00.000Z'' \<mapsto> 3600000], now_ms = 0,
       localTZA_utc = fixed_zone 0, localTZA_local = fixed_zone 0\<rparr>
     ''1970-01-01T01:00:00.000Z''
   \<and> \<not> date_not_after_now_spec
     \<lparr>parse_date = [''1970-01-01T01:00:00.000Z'' \<mapsto> 3600000], now_ms = 0,
       localTZA_utc = fixed_zone 0, localTZA_local = fixed_zone 0\<rparr>
     ''1970-01-01T01:00:00.000Z''"
  by (simp add: dateOfExport_valid_def date_not_after_now_spec_def setHours_end_of_day_def
      LocalTime_def UTC_def TimeClip_def fixed_zone_def msPerDay_def)

section \<open>The upload/review state\<close>

lemma upload_try_status:
  "snd (upload_try w fs ttl descr) = Inr (b, docs) \<Longrightarrow> status b = Some ''needs review''"
  by (auto simp: upload_try_def Let_def split: sum.splits option.splits if_splits)

lemma uploadDocuments_success:
  "snd (upload_try w fs ttl descr) = Inr (b, docs) \<Longrightarrow>
   snd (uploadDocuments w fs ttl descr s) =
     s\<lparr>batches := b # batches s, currentBatch := Some b, currentDocument := first_or_null docs,
       isProcessing := False, error := None\<rparr>"
  by (cases "upload_try w fs ttl descr") (simp add: uploadDocuments_def)

lemma uploadDocuments_failure:
  "snd (upload_try w fs ttl descr) = Inl e \<Longrightarrow>
   snd (uploadDocuments w fs ttl descr s) =
     s\<lparr>error := Some (message_or e ''An unexpected error occurred''), isProcessing := False\<rparr>"
  by (cases "upload_try w fs ttl descr") (simp add: uploadDocuments_def)

text \<open>
  What a successful run stores, in every document of the batch and in the update of the
  record, is the data that \<^verbatim>\<open>processDocument\<close> returned.
\<close>

lemma upload_try_stores_extracted:
  "snd (upload_try w fs ttl descr) = Inr (b, docs) \<Longrightarrow>
   \<exists>d rid. result_data (snd (processDocument fs (fetch_outcome w))) = Some d
      \<and> docs = files b \<and> list_all (\<lambda>doc. data doc = d) (files b)
      \<and> UpdateShipmentRequest rid ''needs review'' d \<in> set (fst (upload_try w fs ttl descr))"
  by (auto simp: upload_try_def Let_def list_all_iff processedFile_def
      split: sum.splits option.splits if_splits)

text \<open>The error is set exactly when the \<^verbatim>\<open>try\<close> block throws.\<close>

lemma uploadDocuments_error_iff_failed:
  "error (snd (uploadDocuments w fs ttl descr s)) \<noteq> None \<longleftrightarrow> isl (snd (upload_try w fs ttl descr))"
proof (cases "snd (upload_try w fs ttl descr)")
  case (Inl e)
  then show ?thesis by (simp add: uploadDocuments_failure)
next
  case (Inr p)
  obtain b docs where "p = (b, docs)" by (cases p)
  then show ?thesis using Inr by (simp add: uploadDocuments_success)
qed

text \<open>
  Claim C1. When \<^verbatim>\<open>uploadDocuments\<close> returns, either it has published one batch, at the
  front of the collection and as the current batch, with status \<^verbatim>\<open>needs review\<close>, or it has
  failed: the error is set and no batch has been published. The batch it publishes is never
  \<^verbatim>\<open>pending\<close>. This holds for every input, so also for valid files, a non-empty title and a
  principal.
\<close>

theorem uploadDocuments_needs_review_or_failed:
  "(\<exists>b. batches (snd (uploadDocuments w fs ttl descr s)) = b # batches s
        \<and> currentBatch (snd (uploadDocuments w fs ttl descr s)) = Some b
        \<and> status b = Some ''needs review'' \<and> status b \<noteq> Some ''pending''
        \<and> error (snd (uploadDocuments w fs ttl descr s)) = None)
   \<or> (batches (snd (uploadDocuments w fs ttl descr s)) = batches s
        \<and> error (snd (uploadDocuments w fs ttl descr s)) \<noteq> None)"
proof (cases "snd (upload_try w fs ttl descr)")
  case (Inl e)
  then show ?thesis by (simp add: uploadDocuments_failure)
next
  case (Inr p)
  obtain b docs where p: "p = (b, docs)" by (cases p)
  then have "status b = Some ''needs review''" using Inr upload_try_status by blast
  then show ?thesis using Inr p by (simp add: uploadDocuments_success)
qed

lemma sample_upload_error:
  "error (snd (uploadDocuments sample_world [sample_pdf] ''Batch A'' None empty_state)) = None"
  by (simp add: uploadDocuments_def upload_try_def Let_def sample_world_def sample_pdf_def
      first_invalid_def isValidType_def processDocument_def processDocument_try_def
      success_result_def split: prod.splits)

text \<open>
  One PDF, the title \<^verbatim>\<open>Batch A\<close>, a principal, and every call succeeding.
\<close>

theorem uploadDocuments_needs_review_witness:
  "\<exists>b. batches (snd (uploadDocuments sample_world [sample_pdf] ''Batch A'' None empty_state)) = [b]
       \<and> status b = Some ''needs review''"
  using uploadDocuments_needs_review_or_failed [of sample_world "[sample_pdf]" "''Batch A''" None empty_state]
    sample_upload_error
  by (auto simp: empty_state_def)

lemma first_invalid_split:
  "list_ex (\<lambda>f. \<not> isValidType (mime_type f)) fs \<Longrightarrow>
   \<exists>pre f post. fs = pre @ f # post \<and> list_all (\<lambda>g. isValidType (mime_type g)) pre
      \<and> \<not> isValidType (mime_type f) \<and> first_invalid fs = Some f"
proof (induction fs)
  case Nil
  then show ?case by simp
next
  case (Cons a fs)
  show ?case
  proof (cases "isValidType (mime_type a)")
    case False
    then have "a # fs = [] @ a # fs \<and> list_all (\<lambda>g. isValidType (mime_type g)) []
        \<and> \<not> isValidType (mime_type a) \<and> first_invalid (a # fs) = Some a"
      by (simp add: first_invalid_def)
    then show ?thesis by blast
  next
    case True
    then obtain pre f post where h: "fs = pre @ f # post"
        "list_all (\<lambda>g. isValidType (mime_type g)) pre" "\<not> isValidType (mime_type f)"
        "first_invalid fs = Some f"
      using Cons by auto
    then have "a # fs = (a # pre) @ f # post \<and> list_all (\<lambda>g. isValidType (mime_type g)) (a # pre)
        \<and> \<not> isValidType (mime_type f) \<and> first_invalid (a # fs) = Some f"
      using True by (simp add: first_invalid_def)
    then show ?thesis by blast
  qed
qed

lemma upload_catch_no_write: "\<not> list_ex writes_shipment_requests (upload_catch w)"
  by (simp add: upload_catch_def writes_shipment_requests_def split: sum.splits option.splits)

lemma upload_try_invalid:
  assumes "getUser w = Inr au" "auth_error au = None" "auth_user au = Some uid"
    and "insertShipment w = Inr ins" "insert_error ins = None" "insert_data ins = Some rid"
    and "first_invalid fs = Some f"
  shows "upload_try w fs ttl descr =
    ([AuthGetUser, InsertShipmentRequest ttl (or_null descr) ''pending'' uid],
     Inl (ErrorObj (invalid_type_message f)))"
  using assms by (simp add: upload_try_def)

lemma upload_try_invalid_fails:
  "first_invalid fs = Some f \<Longrightarrow> \<exists>e. snd (upload_try w fs ttl descr) = Inl e"
  by (auto simp: upload_try_def Let_def split: sum.splits option.splits)

text \<open>
  Claim C2, as the code has it. Every call with a file whose type is not valid fails: the
  error is set and the rest of the state is as before. In a call that has a principal and
  whose insert has returned the id of the new row, the error is the validation error
  \<^verbatim>\<open>Invalid file type for NAME. Please upload PDF or Excel files only.\<close> with the name of the
  first such file; the requests of the call are then the insert of the row, with status
  \<^verbatim>\<open>pending\<close> and no extracted data, followed by the requests of the \<^verbatim>\<open>catch\<close> block, none of
  which writes to \<^verbatim>\<open>shipment_requests\<close>: the row is not rolled back.
\<close>

theorem invalid_file_type_fails_record_kept:
  assumes "list_ex (\<lambda>f. \<not> isValidType (mime_type f)) fs"
  shows "\<exists>pre f post. fs = pre @ f # post
      \<and> list_all (\<lambda>g. isValidType (mime_type g)) pre \<and> \<not> isValidType (mime_type f)
      \<and> (\<exists>m. snd (uploadDocuments w fs ttl descr s) = s\<lparr>error := Some m, isProcessing := False\<rparr>)
      \<and> (\<forall>au uid ins rid.
            getUser w = Inr au \<and> auth_error au = None \<and> auth_user au = Some uid
            \<and> insertShipment w = Inr ins \<and> insert_error ins = None \<and> insert_data ins = Some rid
            \<longrightarrow> snd (uploadDocuments w fs ttl descr s)
                  = s\<lparr>error := Some (''Invalid file type for '' @ name f
                                       @ ''. Please upload PDF or Excel files only.''),
                      isProcessing := False\<rparr>
                \<and> fst (uploadDocuments w fs ttl descr s)
                  = [AuthGetUser, InsertShipmentRequest ttl (or_null descr) ''pending'' uid]
                    @ upload_catch w
                \<and> \<not> list_ex writes_shipment_requests (upload_catch w))"
proof -
  obtain pre f post where h: "fs = pre @ f # post"
      "list_all (\<lambda>g. isValidType (mime_type g)) pre" "\<not> isValidType (mime_type f)"
      "first_invalid fs = Some f"
    using first_invalid_split [OF assms] by blast
  obtain e where "snd (upload_try w fs ttl descr) = Inl e"
    using upload_try_invalid_fails [OF h(4)] by blast
  then have a: "\<exists>m. snd (uploadDocuments w fs ttl descr s) = s\<lparr>error := Some m, isProcessing := False\<rparr>"
    using uploadDocuments_failure by blast
  have b: "snd (uploadDocuments w fs ttl descr s)
                  = s\<lparr>error := Some (''Invalid file type for '' @ name f
                                       @ ''. Please upload PDF or Excel files only.''),
                      isProcessing := False\<rparr>
                \<and> fst (uploadDocuments w fs ttl descr s)
                  = [AuthGetUser, InsertShipmentRequest ttl (or_null descr) ''pending'' uid]
                    @ upload_catch w
                \<and> \<not> list_ex writes_shipment_requests (upload_catch w)"
    if "getUser w = Inr au" "auth_error au = None" "auth_user au = Some uid"
      "insertShipment w = Inr ins" "insert_error ins = None" "insert_data ins = Some rid"
    for au uid ins rid
  proof -
    have t: "upload_try w fs ttl descr =
      ([AuthGetUser, InsertShipmentRequest ttl (or_null descr) ''pending'' uid],
       Inl (ErrorObj (invalid_type_message f)))"
      using that h(4) by (rule upload_try_invalid)
    then show ?thesis
      using upload_catch_no_write [of w]
      by (simp add: uploadDocuments_def message_or_def invalid_type_message_def)
  qed
  show ?thesis
    using h(1-3) a b by blast
qed

text \<open>
  A PDF followed by a \<^verbatim>\<open>.docx\<close> file, with a principal and a successful insert.
\<close>

theorem invalid_file_type_witness:
  "snd (uploadDocuments sample_world [sample_pdf, sample_docx] ''Batch A'' None empty_state)
     = empty_state\<lparr>error := Some ''Invalid file type for notes.docx. Please upload PDF or Excel files only.''\<rparr>
   \<and> fst (uploadDocuments sample_world [sample_pdf, sample_docx] ''Batch A'' None empty_state)
     = [AuthGetUser, InsertShipmentRequest ''Batch A'' None ''pending'' ''u1'',
        AuthGetUser, SelectRecentShipment ''u1'', InsertLog ''r1'' ''processing failed'' ''AI'' None]"
proof -
  have v: "isValidType (mime_type sample_pdf)" "\<not> isValidType (mime_type sample_docx)"
    by (simp_all add: sample_pdf_def sample_docx_def isValidType_def)
  then have ex: "list_ex (\<lambda>f. \<not> isValidType (mime_type f)) [sample_pdf, sample_docx]"
    by simp
  have w: "getUser sample_world = Inr \<lparr>auth_user = Some ''u1'', auth_error = None\<rparr>"
      "insertShipment sample_world = Inr \<lparr>insert_data = Some ''r1'', insert_error = None\<rparr>"
    by (simp_all add: sample_world_def)
  obtain pre f post where h: "[sample_pdf, sample_docx] = pre @ f # post"
      "list_all (\<lambda>g. isValidType (mime_type g)) pre" "\<not> isValidType (mime_type f)"
    and i: "\<forall>au uid ins rid.
            getUser sample_world = Inr au \<and> auth_error au = None \<and> auth_user au = Some uid
            \<and> insertShipment sample_world = Inr ins \<and> insert_error ins = None
            \<and> insert_data ins = Some rid
            \<longrightarrow> snd (uploadDocuments sample_world [sample_pdf, sample_docx] ''Batch A'' None empty_state)
                  = empty_state\<lparr>error := Some (''Invalid file type for '' @ name f
                                       @ ''. Please upload PDF or Excel files only.''),
                      isProcessing := False\<rparr>
                \<and> fst (uploadDocuments sample_world [sample_pdf, sample_docx] ''Batch A'' None empty_state)
                  = [AuthGetUser, InsertShipmentRequest ''Batch A'' (or_null None) ''pending'' uid]
                    @ upload_catch sample_world
                \<and> \<not> list_ex writes_shipment_requests (upload_catch sample_world)"
    using invalid_file_type_fails_record_kept [OF ex, of sample_world "''Batch A''" None empty_state]
    by blast
  have j: "snd (uploadDocuments sample_world [sample_pdf, sample_docx] ''Batch A'' None empty_state)
                  = empty_state\<lparr>error := Some (''Invalid file type for '' @ name f
                                       @ ''. Please upload PDF or Excel files only.''),
                      isProcessing := False\<rparr>"
      "fst (uploadDocuments sample_world [sample_pdf, sample_docx] ''Batch A'' None empty_state)
                  = [AuthGetUser, InsertShipmentRequest ''Batch A'' (or_null None) ''pending'' ''u1'']
                    @ upload_catch sample_world"
    using i [rule_format, of "\<lparr>auth_user = Some ''u1'', auth_error = None\<rparr>" "''u1''"
        "\<lparr>insert_data = Some ''r1'', insert_error = None\<rparr>" "''r1''"] w
    by simp_all
  have "f \<in> set [sample_pdf, sample_docx]" using h(1) by (metis in_set_conv_decomp)
  then have f: "f = sample_docx" using h(3) v(1) by auto
  have c: "upload_catch sample_world =
      [AuthGetUser, SelectRecentShipment ''u1'', InsertLog ''r1'' ''processing failed'' ''AI'' None]"
    by (simp add: upload_catch_def sample_world_def)
  show ?thesis
    using j unfolding f c
    by (simp add: sample_docx_def or_null_def empty_state_def)
qed

text \<open>
  Claim C2 as stated fails: the same two files without a principal. The call fails with the
  sign-in error, which names no file, and no row is inserted.
\<close>

theorem invalid_file_without_principal_counterexample:
  "\<not> isValidType (mime_type sample_docx)
   \<and> uploadDocuments signed_out_world [sample_pdf, sample_docx] ''Batch A'' None empty_state
     = ([AuthGetUser, AuthGetUser],
        empty_state\<lparr>error := Some ''Please sign in to upload documents''\<rparr>)"
  by (simp add: uploadDocuments_def upload_try_def upload_catch_def signed_out_world_def
      sample_world_def sample_docx_def isValidType_def message_or_def empty_state_def)

text \<open>
  Claim C9. In every failing execution of \<^verbatim>\<open>uploadDocuments\<close> (the \<^verbatim>\<open>try\<close> block throws), the
  state after the call is the state before it with the error set to the message, in place of
  any earlier error, and \<^verbatim>\<open>isProcessing\<close> false: the batches, the current batch and the current
  document are as they were. The four causes named by the claim are failing executions
  (\<open>upload_failure_causes\<close> below).
\<close>

theorem uploadDocuments_failure_state_unchanged:
  assumes "snd (upload_try w fs ttl descr) = Inl e"
  shows "snd (uploadDocuments w fs ttl descr s)
           = s\<lparr>error := Some (message_or e ''An unexpected error occurred''), isProcessing := False\<rparr>
         \<and> batches (snd (uploadDocuments w fs ttl descr s)) = batches s
         \<and> currentBatch (snd (uploadDocuments w fs ttl descr s)) = currentBatch s
         \<and> currentDocument (snd (uploadDocuments w fs ttl descr s)) = currentDocument s
         \<and> \<not> isProcessing (snd (uploadDocuments w fs ttl descr s))"
  using uploadDocuments_failure [OF assms, of s] by simp

lemma upload_failure_causes:
  "getUser w = Inr au \<Longrightarrow> auth_error au \<noteq> None \<or> auth_user au = None \<Longrightarrow>
     snd (upload_try w fs ttl descr) = Inl (ErrorObj ''Please sign in to upload documents'')"
  "getUser w = Inr au \<Longrightarrow> auth_error au = None \<Longrightarrow> auth_user au = Some uid \<Longrightarrow>
   insertShipment w = Inr ins \<Longrightarrow> insert_error ins \<noteq> None \<or> insert_data ins = None \<Longrightarrow>
     snd (upload_try w fs ttl descr) =
       Inl (ErrorObj (''Failed to create shipment request: '' @ or_else (insert_error ins) ''Unknown error''))"
  "getUser w = Inr au \<Longrightarrow> auth_error au = None \<Longrightarrow> auth_user au = Some uid \<Longrightarrow>
   insertShipment w = Inr ins \<Longrightarrow> insert_error ins = None \<Longrightarrow> insert_data ins = Some rid \<Longrightarrow>
   first_invalid fs = Some f \<Longrightarrow>
     snd (upload_try w fs ttl descr) = Inl (ErrorObj (invalid_type_message f))"
  "getUser w = Inr au \<Longrightarrow> auth_error au = None \<Longrightarrow> auth_user au = Some uid \<Longrightarrow>
   insertShipment w = Inr ins \<Longrightarrow> insert_error ins = None \<Longrightarrow> insert_data ins = Some rid \<Longrightarrow>
   first_invalid fs = None \<Longrightarrow> snd (processDocument fs (fetch_outcome w)) = failure_result m \<Longrightarrow>
     snd (upload_try w fs ttl descr) = Inl (ErrorObj (or_else (Some m) ''Failed to process documents''))"
  by (auto simp: upload_try_def Let_def failure_result_def)


lemma sample_extraction_failure:
  "snd (upload_try (sample_world\<lparr>fetch_outcome := Inr \<lparr>ok = False, http_status = 503, json_body = Inl NonError\<rparr>\<rparr>)
          [sample_pdf] ''Batch A'' None) = Inl (ErrorObj ''HTTP error! status: 503'')"
  by (simp add: upload_try_def Let_def sample_world_def sample_pdf_def first_invalid_def
      isValidType_def processDocument_def processDocument_try_def failure_result_def
      get_property_def message_or_def http_error_message_def or_else_def)

text \<open>
  An extraction that answers 503, from a state with one batch and an earlier error.
\<close>

theorem uploadDocuments_failure_witness:
  "snd (uploadDocuments (sample_world\<lparr>fetch_outcome := Inr \<lparr>ok = False, http_status = 503, json_body = Inl NonError\<rparr>\<rparr>)
          [sample_pdf] ''Batch A'' None sample_state)
     = \<lparr>batches = [sample_batch], currentBatch = None, currentDocument = None,
         isProcessing = False, error = Some ''HTTP error! status: 503''\<rparr>"
  using uploadDocuments_failure_state_unchanged [OF sample_extraction_failure, of sample_state]
  by (simp add: sample_state_def message_or_def)

lemma updateDocumentData_status:
  "map status (batches (updateDocumentData d p s)) = map status (batches s)"
  by (simp add: updateDocumentData_def update_files_def comp_def)

lemma updateDocumentData_current_status:
  "map_option status (currentBatch (updateDocumentData d p s)) = map_option status (currentBatch s)"
  by (cases "currentBatch s") (simp_all add: updateDocumentData_def update_files_def)

lemma updateBatchStatus_status:
  "map status (batches (updateBatchStatus rid st s))
     = map (\<lambda>b. if shipmentRequestId b = Some rid then Some st else status b) (batches s)"
  by (simp add: updateBatchStatus_def comp_def if_distrib cong: if_cong)

lemma updateBatchStatus_current_status:
  "map_option status (currentBatch (updateBatchStatus rid st s))
     = map_option (\<lambda>b. if shipmentRequestId b = Some rid then Some st else status b) (currentBatch s)"
  by (cases "currentBatch s") (simp_all add: updateBatchStatus_def)

lemma uploadDocuments_batches_current:
  "(batches (snd (uploadDocuments w fs ttl descr s)) = batches s
      \<or> (\<exists>b. batches (snd (uploadDocuments w fs ttl descr s)) = b # batches s))
   \<and> (currentBatch (snd (uploadDocuments w fs ttl descr s)) = currentBatch s
      \<or> (\<exists>b. currentBatch (snd (uploadDocuments w fs ttl descr s)) = Some b
             \<and> b \<in> set (batches (snd (uploadDocuments w fs ttl descr s)))))"
proof (cases "snd (upload_try w fs ttl descr)")
  case (Inl e)
  then show ?thesis by (simp add: uploadDocuments_failure)
next
  case (Inr p)
  obtain b docs where "p = (b, docs)" by (cases p)
  then show ?thesis using Inr by (simp add: uploadDocuments_success)
qed

lemma loadShipmentRequest_batches_current:
  "(batches (snd (loadShipmentRequest lw rid s)) = batches s
      \<or> (\<exists>b. batches (snd (loadShipmentRequest lw rid s)) = b # batches s))
   \<and> (currentBatch (snd (loadShipmentRequest lw rid s)) = currentBatch s
      \<or> (\<exists>b. currentBatch (snd (loadShipmentRequest lw rid s)) = Some b
             \<and> b \<in> set (batches (snd (loadShipmentRequest lw rid s)))))"
  by (auto simp: loadShipmentRequest_def load_try_def Let_def
      split: sum.splits option.splits dest: find_Some_iff [THEN iffD1] intro: nth_mem)

text \<open>
  Claim C4, as the code has it. \<^verbatim>\<open>updateBatchStatus\<close> has no guard: it gives the status it is called with to every batch of the collection
  whose record id is the one it is called with, and to the current batch when it has that
  record id, and leaves the status of every other batch as it is. \<^verbatim>\<open>updateDocumentData\<close> leaves
  the status of every batch of the collection and of the current batch as it is.
  \<^verbatim>\<open>uploadDocuments\<close> and \<^verbatim>\<open>loadShipmentRequest\<close> leave the collection as it is or add one batch
  in front of it, and leave the current batch as it is or make a batch of the resulting
  collection current.
\<close>

theorem batch_status_changes:
  "map status (batches (updateBatchStatus rid st s))
     = map (\<lambda>b. if shipmentRequestId b = Some rid then Some st else status b) (batches s)
   \<and> map_option status (currentBatch (updateBatchStatus rid st s))
     = map_option (\<lambda>b. if shipmentRequestId b = Some rid then Some st else status b) (currentBatch s)
   \<and> map status (batches (updateDocumentData d p s)) = map status (batches s)
   \<and> map_option status (currentBatch (updateDocumentData d p s)) = map_option status (currentBatch s)
   \<and> (batches (snd (uploadDocuments w fs ttl descr s)) = batches s
      \<or> (\<exists>b. batches (snd (uploadDocuments w fs ttl descr s)) = b # batches s))
   \<and> (currentBatch (snd (uploadDocuments w fs ttl descr s)) = currentBatch s
      \<or> (\<exists>b. currentBatch (snd (uploadDocuments w fs ttl descr s)) = Some b
             \<and> b \<in> set (batches (snd (uploadDocuments w fs ttl descr s)))))
   \<and> (batches (snd (loadShipmentRequest lw rid' s)) = batches s
      \<or> (\<exists>b. batches (snd (loadShipmentRequest lw rid' s)) = b # batches s))
   \<and> (currentBatch (snd (loadShipmentRequest lw rid' s)) = currentBatch s
      \<or> (\<exists>b. currentBatch (snd (loadShipmentRequest lw rid' s)) = Some b
             \<and> b \<in> set (batches (snd (loadShipmentRequest lw rid' s)))))"
  using updateBatchStatus_status [of rid st s] updateBatchStatus_current_status [of rid st s]
    updateDocumentData_status [of d p s] updateDocumentData_current_status [of d p s]
    uploadDocuments_batches_current [of w fs ttl descr s]
    loadShipmentRequest_batches_current [of lw rid' s]
  by (simp only: simp_thms)

text \<open>
  A \<^verbatim>\<open>completed\<close> batch of record \<^verbatim>\<open>r1\<close> that is also the current batch: a status update for
  another record, a repeated completion and a field edit leave both copies \<^verbatim>\<open>completed\<close>.
\<close>

theorem batch_status_changes_witness:
  "map status (batches (updateBatchStatus ''r2'' ''needs review'' completed_state)) = [Some ''completed'']
   \<and> map_option status (currentBatch (updateBatchStatus ''r2'' ''needs review'' completed_state))
     = Some (Some ''completed'')
   \<and> map status (batches (updateBatchStatus ''r1'' ''completed'' completed_state)) = [Some ''completed'']
   \<and> map_option status (currentBatch (updateBatchStatus ''r1'' ''completed'' completed_state))
     = Some (Some ''completed'')
   \<and> map status (batches (updateDocumentData ''d1'' sample_edit completed_state)) = [Some ''completed'']
   \<and> map_option status (currentBatch (updateDocumentData ''d1'' sample_edit completed_state))
     = Some (Some ''completed'')"
  using batch_status_changes [of "''r2''" "''needs review''" completed_state "''d1''" sample_edit]
    batch_status_changes [of "''r1''" "''completed''" completed_state "''d1''" sample_edit]
  by (simp add: completed_state_def sample_batch_def)

text \<open>
  Claim C4 as stated fails: \<^verbatim>\<open>updateBatchStatus\<close>, called with the record id of a \<^verbatim>\<open>completed\<close>
  batch and the status \<^verbatim>\<open>needs review\<close>, moves the batch back to \<^verbatim>\<open>needs review\<close>, in the
  collection and as the current batch; called with the record id of a \<^verbatim>\<open>pending\<close> batch and
  the status \<^verbatim>\<open>completed\<close>, it completes a batch that was never in \<^verbatim>\<open>needs review\<close>.
\<close>

theorem updateBatchStatus_reopens_counterexample:
  "map status (batches sample_state) = [Some ''completed'']
   \<and> map status (batches (updateBatchStatus ''r1'' ''needs review'' sample_state))
       = [Some ''needs review'']
   \<and> map_option status (currentBatch completed_state) = Some (Some ''completed'')
   \<and> map_option status (currentBatch (updateBatchStatus ''r1'' ''needs review'' completed_state))
       = Some (Some ''needs review'')
   \<and> map status (batches pending_state) = [Some ''pending'']
   \<and> map status (batches (updateBatchStatus ''r1'' ''completed'' pending_state))
       = [Some ''completed'']"
  by (simp add: updateBatchStatus_def sample_state_def completed_state_def pending_state_def
      sample_batch_def)

lemma loadShipmentRequest_effects: "fst (loadShipmentRequest lw rid s) = [SelectShipmentRequest rid]"
  by (simp add: loadShipmentRequest_def Let_def)

text \<open>
  Claim C3, as the code has it. \<^verbatim>\<open>loadShipmentRequest\<close> always reads the record from the
  store first. For a record id already in memory: when the read succeeds, the first batch in
  memory with that id becomes the current batch, unchanged, its first document (if any) the
  current document, and the collection stays as it is; what was read is not used. When the
  read fails, the call fails and the current batch and document stay as they were.
\<close>

theorem loadShipmentRequest_in_memory:
  assumes "find (\<lambda>b. shipmentRequestId b = Some rid) (batches s) = Some b"
  shows "fst (loadShipmentRequest lw rid s) = [SelectShipmentRequest rid]
     \<and> snd (loadShipmentRequest lw rid s) =
         (case selectShipment lw of
            Inl e \<Rightarrow>
              s\<lparr>error := Some (message_or e ''Failed to load shipment request''), isProcessing := False\<rparr>
          | Inr r \<Rightarrow>
              if select_error r = None \<and> select_data r \<noteq> None
              then s\<lparr>currentBatch := Some b, currentDocument := first_or_null (files b),
                     isProcessing := False, error := None\<rparr>
              else s\<lparr>error := Some ''Failed to load shipment request'', isProcessing := False\<rparr>)"
  using assms
  by (auto simp: loadShipmentRequest_def load_try_def Let_def message_or_def
      split: sum.splits option.splits)

text \<open>
  The record \<^verbatim>\<open>r1\<close> is in memory and the read succeeds.
\<close>

theorem loadShipmentRequest_in_memory_witness:
  "snd (loadShipmentRequest
         \<lparr>selectShipment = Inr \<lparr>select_data = Some \<lparr>row_title = ''Batch A'', row_description = None,
              row_status = ''needs review'', row_extracted_data = None, row_created_at = 0\<rparr>,
            select_error = None\<rparr>, load_randomUUID = ''uuid-9''\<rparr> ''r1'' sample_state)
     = \<lparr>batches = [sample_batch], currentBatch = Some sample_batch,
        currentDocument = Some sample_doc, isProcessing = False, error = None\<rparr>"
proof -
  have "find (\<lambda>b. shipmentRequestId b = Some ''r1'') (batches sample_state) = Some sample_batch"
    by (simp add: sample_state_def sample_batch_def)
  from loadShipmentRequest_in_memory [OF this] show ?thesis
    by (simp add: sample_state_def sample_batch_def first_or_null_def)
qed

text \<open>
  Claim C3 as stated fails: with the record \<^verbatim>\<open>r1\<close> in memory, the call sends the read, and
  when the read fails the batch in memory is not made current.
\<close>

theorem loadShipmentRequest_reads_counterexample:
  "find (\<lambda>b. shipmentRequestId b = Some ''r1'') (batches sample_state) = Some sample_batch
   \<and> loadShipmentRequest
       \<lparr>selectShipment = Inr \<lparr>select_data = None, select_error = Some ''network error''\<rparr>,
         load_randomUUID = ''uuid-9''\<rparr> ''r1'' sample_state
     = ([SelectShipmentRequest ''r1''],
        \<lparr>batches = [sample_batch], currentBatch = None, currentDocument = None,
          isProcessing = False, error = Some ''Failed to load shipment request''\<rparr>)"
  by (simp add: loadShipmentRequest_def load_try_def message_or_def sample_state_def
      sample_batch_def)

end
